theory Spec2Isabelle
  imports Main "HOL-Library.Sublist"
begin

section \<open>Data model of \<open>src/scraper/browser.py\<close>\<close>

text \<open>
  The class \<open>BrowserManager\<close> drives a third-party browser engine (Playwright).  The
  engine is not part of the program: it is a parameter of the model.  Every awaited engine
  call is recorded in a history of calls, and the engine answers each call as a function
  of the whole history up to and including that call, so that an arbitrary (also failing,
  also history-dependent) engine is covered by quantifying over the \<open>engine\<close> record.

  Only exceptions derived from Python's \<open>Exception\<close> are modelled: they are the ones
  the \<open>except Exception\<close> clauses of the source catch.  Task cancellation and
  interpreter exit are outside the model.

  The retry of \<open>get_properties\<close> is a nested await of the method itself, and the
  interpreter bounds the depth of such nesting.  Whether it admits one more level is an
  answer of the environment too: the field \<open>e_nested_await\<close>, again a function of the
  history.
\<close>

type_synonym handle = nat

datatype exn =
    RuntimeError string
  | AttributeError string
  | PlaywrightError string
  | PlaywrightTimeoutError string
  | OverflowError string
  | RecursionError string

text \<open>
  Modelled from the spec: the module \<open>config.py\<close> (class \<open>Config\<close>) is not among
  the sources.  The record lists the settings that \<open>browser.py\<close> reads, with the types the
  spec gives them; \<open>config.browser.x\<close>, \<open>config.selectors.x\<close> and
  \<open>config.scraping.x\<close> are flattened into one record.
\<close>

record Config =
  headless :: bool
  user_agent :: string
  viewport_width :: int
  viewport_height :: int
  default_timeout :: int
  navigation_timeout :: int
  property_list :: string
  property_item :: string
  max_retries :: int
  retry_delay :: int

text \<open>
  The four optional handle fields set by \<open>__init__\<close>.  A handle object is truthy in
  Python, so \<open>if self._page\<close> is the test \<open>h_page m \<noteq> None\<close>.
\<close>

record BrowserManager =
  h_playwright :: "handle option"
  h_browser :: "handle option"
  h_page :: "handle option"
  h_context :: "handle option"

definition BrowserManager_init :: BrowserManager where
  "BrowserManager_init =
     \<lparr>h_playwright = None, h_browser = None, h_page = None, h_context = None\<rparr>"

text \<open>
  The awaited calls, with the receiver handle and the arguments the source passes.
  \<open>Settle_sleep\<close> is \<open>asyncio.sleep(5)\<close>; \<open>Retry_sleep d\<close> is
  \<open>asyncio.sleep(d / 1000)\<close> with \<open>d\<close> the configured retry delay.
  \<open>Goto p url None\<close> is the navigation of \<open>get_properties\<close> (no timeout argument),
  \<open>Goto p url (Some t)\<close> the one of \<open>get_page_content\<close>.
\<close>

datatype call =
    Start
  | Launch handle bool
  | New_context handle string int int
  | New_page handle
  | Set_default_timeout handle int
  | Set_default_navigation_timeout handle int
  | Page_close handle
  | Context_close handle
  | Browser_close handle
  | Stop handle
  | Goto handle string "int option"
  | Settle_sleep
  | Retry_sleep int
  | Wait_for_selector handle string int
  | Query_selector_all handle string
  | Inner_html handle
  | Content handle

datatype level = Debug | Info | Warning | Error

record engine =
  e_start :: "call list \<Rightarrow> exn + handle"
  e_launch :: "call list \<Rightarrow> exn + handle"
  e_new_context :: "call list \<Rightarrow> exn + handle"
  e_new_page :: "call list \<Rightarrow> exn + handle"
  e_set_default_timeout :: "call list \<Rightarrow> exn + unit"
  e_set_default_navigation_timeout :: "call list \<Rightarrow> exn + unit"
  e_page_close :: "call list \<Rightarrow> exn + unit"
  e_context_close :: "call list \<Rightarrow> exn + unit"
  e_browser_close :: "call list \<Rightarrow> exn + unit"
  e_stop :: "call list \<Rightarrow> exn + unit"
  e_goto :: "call list \<Rightarrow> exn + unit"
  e_wait_for_selector :: "call list \<Rightarrow> exn + handle option"
  e_query_selector_all :: "call list \<Rightarrow> exn + handle list"
  e_inner_html :: "call list \<Rightarrow> exn + string option"
  e_content :: "call list \<Rightarrow> exn + string"
  e_nested_await :: "call list \<Rightarrow> bool"

text \<open>
  The world an operation runs in: the manager's fields, the engine calls made so far
  (oldest first) and the records handed to the logger.
\<close>

record world =
  mgr :: BrowserManager
  calls :: "call list"
  logs :: "(level \<times> string) list"

type_synonym 'a prog = "world \<Rightarrow> (exn + 'a) \<times> world"

section \<open>Control flow: return, raise, sequencing, try/except\<close>

definition ret :: "'a \<Rightarrow> 'a prog" where
  "ret x = (\<lambda>w. (Inr x, w))"

definition raise :: "exn \<Rightarrow> 'a prog" where
  "raise e = (\<lambda>w. (Inl e, w))"

definition bnd :: "'a prog \<Rightarrow> ('a \<Rightarrow> 'b prog) \<Rightarrow> 'b prog" where
  "bnd m f = (\<lambda>w. case m w of (Inl e, w') \<Rightarrow> (Inl e, w') | (Inr x, w') \<Rightarrow> f x w')"

definition try_except :: "'a prog \<Rightarrow> (exn \<Rightarrow> 'a prog) \<Rightarrow> 'a prog" where
  "try_except m h = (\<lambda>w. case m w of (Inl e, w') \<Rightarrow> h e w' | (Inr x, w') \<Rightarrow> (Inr x, w'))"

definition log_w :: "level \<Rightarrow> string \<Rightarrow> world \<Rightarrow> world" where
  "log_w lv msg w = w\<lparr>logs := logs w @ [(lv, msg)]\<rparr>"

definition log :: "level \<Rightarrow> string \<Rightarrow> unit prog" where
  "log lv msg = (\<lambda>w. (Inr (), log_w lv msg w))"

definition sleep_w :: "call \<Rightarrow> world \<Rightarrow> world" where
  "sleep_w c w = w\<lparr>calls := calls w @ [c]\<rparr>"

definition sleep :: "call \<Rightarrow> unit prog" where
  "sleep c = (\<lambda>w. (Inr (), sleep_w c w))"

text \<open>An awaited engine call: it is appended to the history, then the engine answers.\<close>

definition invoke :: "call \<Rightarrow> (call list \<Rightarrow> exn + 'a) \<Rightarrow> 'a prog" where
  "invoke c oracle = (\<lambda>w. (oracle (calls w @ [c]), w\<lparr>calls := calls w @ [c]\<rparr>))"

definition set_playwright :: "handle option \<Rightarrow> unit prog" where
  "set_playwright v = (\<lambda>w. (Inr (), w\<lparr>mgr := (mgr w)\<lparr>h_playwright := v\<rparr>\<rparr>))"

definition set_browser :: "handle option \<Rightarrow> unit prog" where
  "set_browser v = (\<lambda>w. (Inr (), w\<lparr>mgr := (mgr w)\<lparr>h_browser := v\<rparr>\<rparr>))"

definition set_context :: "handle option \<Rightarrow> unit prog" where
  "set_context v = (\<lambda>w. (Inr (), w\<lparr>mgr := (mgr w)\<lparr>h_context := v\<rparr>\<rparr>))"

definition set_page :: "handle option \<Rightarrow> unit prog" where
  "set_page v = (\<lambda>w. (Inr (), w\<lparr>mgr := (mgr w)\<lparr>h_page := v\<rparr>\<rparr>))"

text \<open>
  Reading \<open>self._page.<name>\<close>: on \<open>None\<close> Python raises \<open>AttributeError\<close>.
\<close>

definition page_attr :: "string \<Rightarrow> handle prog" where
  "page_attr name = (\<lambda>w. case h_page (mgr w) of
       None \<Rightarrow> (Inl (AttributeError name), w)
     | Some p \<Rightarrow> (Inr p, w))"

section \<open>\<open>close\<close>\<close>

definition release_page :: "engine \<Rightarrow> unit prog" where
  "release_page eng = (\<lambda>w. case h_page (mgr w) of
       None \<Rightarrow> (Inr (), w)
     | Some p \<Rightarrow> bnd (invoke (Page_close p) (e_page_close eng)) (\<lambda>_. set_page None) w)"

definition release_context :: "engine \<Rightarrow> unit prog" where
  "release_context eng = (\<lambda>w. case h_context (mgr w) of
       None \<Rightarrow> (Inr (), w)
     | Some c \<Rightarrow> bnd (invoke (Context_close c) (e_context_close eng)) (\<lambda>_. set_context None) w)"

definition release_browser :: "engine \<Rightarrow> unit prog" where
  "release_browser eng = (\<lambda>w. case h_browser (mgr w) of
       None \<Rightarrow> (Inr (), w)
     | Some b \<Rightarrow> bnd (invoke (Browser_close b) (e_browser_close eng)) (\<lambda>_. set_browser None) w)"

definition release_playwright :: "engine \<Rightarrow> unit prog" where
  "release_playwright eng = (\<lambda>w. case h_playwright (mgr w) of
       None \<Rightarrow> (Inr (), w)
     | Some pw \<Rightarrow> bnd (invoke (Stop pw) (e_stop eng)) (\<lambda>_. set_playwright None) w)"

text \<open>The body of the \<open>try\<close> block of \<open>close\<close> (lines 79 to 95).\<close>

definition close_body :: "engine \<Rightarrow> unit prog" where
  "close_body eng =
     bnd (release_page eng) (\<lambda>_.
     bnd (release_context eng) (\<lambda>_.
     bnd (release_browser eng) (\<lambda>_.
     bnd (release_playwright eng) (\<lambda>_.
     log Info ''Browser resources cleaned up''))))"

definition close :: "engine \<Rightarrow> unit prog" where
  "close eng = try_except (close_body eng) (\<lambda>e. log Error ''Error during cleanup'')"

section \<open>\<open>connect\<close>\<close>

definition initialize_playwright :: "engine \<Rightarrow> unit prog" where
  "initialize_playwright eng = (\<lambda>w. case h_playwright (mgr w) of
       Some _ \<Rightarrow> (Inr (), w)
     | None \<Rightarrow>
         bnd (log Debug ''Initializing Playwright'') (\<lambda>_.
         bnd (invoke Start (e_start eng)) (\<lambda>pw.
         set_playwright (Some pw))) w)"

text \<open>The body of the \<open>try\<close> block of \<open>connect\<close> (lines 47 to 68).\<close>

definition connect_body :: "Config \<Rightarrow> engine \<Rightarrow> unit prog" where
  "connect_body cfg eng =
     bnd (initialize_playwright eng) (\<lambda>_. (\<lambda>w.
       case h_playwright (mgr w) of
         None \<Rightarrow> raise (RuntimeError ''Failed to initialize Playwright'') w
       | Some pw \<Rightarrow>
          (bnd (log Info ''Launching browser...'') (\<lambda>_.
           bnd (invoke (Launch pw (headless cfg)) (e_launch eng)) (\<lambda>b.
           bnd (set_browser (Some b)) (\<lambda>_.
           bnd (invoke (New_context b (user_agent cfg) (viewport_width cfg) (viewport_height cfg))
                  (e_new_context eng)) (\<lambda>c.
           bnd (set_context (Some c)) (\<lambda>_.
           bnd (invoke (New_page c) (e_new_page eng)) (\<lambda>p.
           bnd (set_page (Some p)) (\<lambda>_.
           bnd (invoke (Set_default_timeout p (default_timeout cfg))
                  (e_set_default_timeout eng)) (\<lambda>_.
           bnd (invoke (Set_default_navigation_timeout p (navigation_timeout cfg))
                  (e_set_default_navigation_timeout eng)) (\<lambda>_.
           log Info ''Browser launched successfully'')))))))))) w))"

definition connect :: "Config \<Rightarrow> engine \<Rightarrow> unit prog" where
  "connect cfg eng =
     try_except (connect_body cfg eng) (\<lambda>e.
       bnd (log Error ''Failed to launch browser'') (\<lambda>_.
       bnd (close eng) (\<lambda>_.
       raise e)))"

section \<open>\<open>get_properties\<close>\<close>

text \<open>
  The \<open>for\<close> loop of lines 137 to 140: \<open>if html\<close> is false for \<open>None\<close> and for
  the empty string.
\<close>

fun collect_html :: "engine \<Rightarrow> handle list \<Rightarrow> string list \<Rightarrow> string list prog" where
  "collect_html eng [] html_elements w = (Inr html_elements, w)"
| "collect_html eng (element # rest) html_elements w =
     (case invoke (Inner_html element) (e_inner_html eng) w of
        (Inl e, w') \<Rightarrow> (Inl e, w')
      | (Inr html, w') \<Rightarrow>
          (case html of
             None \<Rightarrow> collect_html eng rest html_elements w'
           | Some h \<Rightarrow>
               if h \<noteq> [] then collect_html eng rest (html_elements @ [h]) w'
               else collect_html eng rest html_elements w'))"

text \<open>The body of the \<open>try\<close> block of \<open>get_properties\<close> (lines 120 to 144).\<close>

definition fetch_attempt :: "Config \<Rightarrow> engine \<Rightarrow> string \<Rightarrow> string list prog" where
  "fetch_attempt cfg eng url =
     bnd (log Info ''Navigating to'') (\<lambda>_.
     bnd (page_attr ''goto'') (\<lambda>p.
     bnd (invoke (Goto p url None) (e_goto eng)) (\<lambda>_.
     bnd (sleep Settle_sleep) (\<lambda>_.
     bnd (page_attr ''wait_for_selector'') (\<lambda>p.
     bnd (invoke (Wait_for_selector p (property_list cfg) (default_timeout cfg))
            (e_wait_for_selector eng)) (\<lambda>property_list_el.
       case property_list_el of
         None \<Rightarrow>
           bnd (log Warning ''Property list selector not found'') (\<lambda>_. ret [])
       | Some _ \<Rightarrow>
           bnd (page_attr ''query_selector_all'') (\<lambda>p.
           bnd (invoke (Query_selector_all p (property_item cfg))
                  (e_query_selector_all eng)) (\<lambda>property_elements.
           bnd (collect_html eng property_elements []) (\<lambda>html_elements.
           bnd (log Info ''Found properties for URL'') (\<lambda>_.
           ret html_elements))))))))))"

text \<open>
  Python's \<open>a / b\<close> on integers gives the double nearest to the quotient, ties to even,
  and raises \<open>OverflowError\<close> when that is not finite: when the quotient is at least half
  a unit in the last place above the largest double, \<open>2 ^ 1024 - 2 ^ 970\<close> in magnitude.
\<close>

definition true_div_overflows :: "int \<Rightarrow> int \<Rightarrow> bool" where
  "true_div_overflows a b \<longleftrightarrow> \<bar>b\<bar> * (2 ^ 1024 - 2 ^ 970) \<le> \<bar>a\<bar>"

text \<open>
  The world after the delay of line 149, from the world \<open>w1\<close> in which the attempt
  failed: the error and the retry are logged, then \<open>asyncio.sleep(retry_delay / 1000)\<close>
  has run.
\<close>

definition retry_world :: "Config \<Rightarrow> world \<Rightarrow> world" where
  "retry_world cfg w1 = sleep_w (Retry_sleep (retry_delay cfg))
                        (log_w Info ''Retrying''
                          (log_w Error ''Error fetching properties'' w1))"

text \<open>
  The method (lines 114 to 151).  In the \<open>except\<close> clause, below the retry limit, the
  delay \<open>retry_delay / 1000\<close> is computed first and may overflow; after the delay the
  method awaits itself, which the interpreter may refuse.  Both errors arise inside the
  \<open>except\<close> clause and so leave the method.
\<close>

function get_properties :: "Config \<Rightarrow> engine \<Rightarrow> string \<Rightarrow> int \<Rightarrow> string list prog" where
  "get_properties cfg eng url retry_count w =
     (case h_page (mgr w) of
        None \<Rightarrow> (Inl (RuntimeError ''Browser not initialized. Call connect() first.''), w)
      | Some _ \<Rightarrow>
          (case fetch_attempt cfg eng url w of
             (Inr html_elements, w1) \<Rightarrow> (Inr html_elements, w1)
           | (Inl e, w1) \<Rightarrow>
               if retry_count < max_retries cfg
               then (if true_div_overflows (retry_delay cfg) 1000
                     then (Inl (OverflowError ''integer division result too large for a float''),
                           log_w Info ''Retrying''
                             (log_w Error ''Error fetching properties'' w1))
                     else if \<not> e_nested_await eng (calls (retry_world cfg w1))
                     then (Inl (RecursionError ''maximum recursion depth exceeded''),
                           retry_world cfg w1)
                     else get_properties cfg eng url (retry_count + 1) (retry_world cfg w1))
               else (Inl e, log_w Error ''Error fetching properties'' w1)))"
  by pat_completeness auto
termination
  by (relation "measure (\<lambda>(cfg, eng, url, retry_count, w). nat (max_retries cfg - retry_count))")
     auto

declare get_properties.simps [simp del]

section \<open>\<open>get_page_content\<close>\<close>

text \<open>Python's \<open>needle in haystack\<close> on strings.\<close>

fun str_in :: "string \<Rightarrow> string \<Rightarrow> bool" where
  "str_in needle [] = (needle = [])"
| "str_in needle (c # cs) = (prefix needle (c # cs) \<or> str_in needle cs)"

text \<open>The body of the \<open>try\<close> block of \<open>get_page_content\<close> (lines 164 to 179).\<close>

definition page_content_body :: "Config \<Rightarrow> engine \<Rightarrow> string \<Rightarrow> string option prog" where
  "page_content_body cfg eng url =
     bnd (page_attr ''goto'') (\<lambda>p.
     bnd (invoke (Goto p url (Some (navigation_timeout cfg))) (e_goto eng)) (\<lambda>_.
     bnd (sleep Settle_sleep) (\<lambda>_.
     bnd (page_attr ''content'') (\<lambda>p.
     bnd (invoke (Content p) (e_content eng)) (\<lambda>content.
     bnd (log Debug ''Fetched content length'') (\<lambda>_.
     bnd (if length content < 1000
          then log Warning ''Content seems too short, might be incomplete''
          else if \<not> str_in ''prices-summary'' content
          then log Warning ''Expected content markers not found in page''
          else ret ()) (\<lambda>_.
     ret (Some content))))))))"

definition get_page_content :: "Config \<Rightarrow> engine \<Rightarrow> string \<Rightarrow> string option prog" where
  "get_page_content cfg eng url =
     try_except (page_content_body cfg eng url) (\<lambda>e.
       bnd (log Error ''Failed to get page content'') (\<lambda>_. ret None))"

section \<open>Test doubles\<close>

text \<open>
  A configuration, a world of a newly constructed manager, a world of a connected one, and
  an engine that never fails: it hands out the handles 1 to 4 and shows a page in which
  the selector \<open>ul.list\<close> finds the list container and the selector \<open>li.item\<close>
  matches four items, of which two have non-empty inner HTML; it waits in vain for any other
  selector, and no other selector matches an element.
\<close>

definition demo_config :: Config where
  "demo_config =
     \<lparr>headless = True, user_agent = ''agent'', viewport_width = 1280, viewport_height = 720,
      default_timeout = 30000, navigation_timeout = 60000, property_list = ''ul.list'',
      property_item = ''li.item'', max_retries = 2, retry_delay = 1000\<rparr>"

definition new_world :: world where
  "new_world = \<lparr>mgr = BrowserManager_init, calls = [], logs = []\<rparr>"

definition ready_world :: world where
  "ready_world =
     \<lparr>mgr = \<lparr>h_playwright = Some 1, h_browser = Some 2, h_page = Some 4, h_context = Some 3\<rparr>,
      calls = [], logs = []\<rparr>"

fun demo_html :: "handle \<Rightarrow> string option" where
  "demo_html el =
     (if el = 10 then Some ''<a>'' else if el = 11 then Some []
      else if el = 12 then None else Some ''<b>'')"

fun demo_inner_html :: "call list \<Rightarrow> exn + string option" where
  "demo_inner_html tr =
     (case last tr of Inner_html el \<Rightarrow> Inr (demo_html el) | _ \<Rightarrow> Inr None)"

fun demo_matches :: "string \<Rightarrow> handle list" where
  "demo_matches sel = (if sel = ''li.item'' then [10, 11, 12, 13] else [])"

fun demo_wait :: "call list \<Rightarrow> exn + handle option" where
  "demo_wait tr =
     (case last tr of
        Wait_for_selector p sel t \<Rightarrow>
          if sel = ''ul.list'' then Inr (Some 5)
          else Inl (PlaywrightTimeoutError ''Timeout exceeded'')
      | _ \<Rightarrow> Inr None)"

fun demo_query :: "call list \<Rightarrow> exn + handle list" where
  "demo_query tr =
     (case last tr of Query_selector_all p sel \<Rightarrow> Inr (demo_matches sel) | _ \<Rightarrow> Inr [])"

definition quiet_engine :: engine where
  "quiet_engine =
     \<lparr>e_start = (\<lambda>_. Inr 1), e_launch = (\<lambda>_. Inr 2), e_new_context = (\<lambda>_. Inr 3),
      e_new_page = (\<lambda>_. Inr 4), e_set_default_timeout = (\<lambda>_. Inr ()),
      e_set_default_navigation_timeout = (\<lambda>_. Inr ()), e_page_close = (\<lambda>_. Inr ()),
      e_context_close = (\<lambda>_. Inr ()), e_browser_close = (\<lambda>_. Inr ()), e_stop = (\<lambda>_. Inr ()),
      e_goto = (\<lambda>_. Inr ()), e_wait_for_selector = demo_wait,
      e_query_selector_all = demo_query, e_inner_html = demo_inner_html,
      e_content = (\<lambda>_. Inr ''<html></html>''), e_nested_await = (\<lambda>_. True)\<rparr>"

definition failing_engine :: engine where
  "failing_engine = quiet_engine\<lparr>e_goto := (\<lambda>_. Inl (PlaywrightTimeoutError ''navigation''))\<rparr>"

text \<open>A configuration whose retry delay is too large for a float.\<close>

definition huge_delay_config :: Config where
  "huge_delay_config = demo_config\<lparr>retry_delay := 10 ^ 400\<rparr>"

section \<open>Observing a run\<close>

text \<open>
  Every attempt of \<open>get_properties\<close> navigates once, so the attempts of a run are the
  \<open>Goto\<close> calls of its history; the retry delays are its \<open>Retry_sleep\<close> calls.
\<close>

fun is_goto :: "call \<Rightarrow> bool" where
  "is_goto (Goto _ _ _) = True"
| "is_goto _ = False"

fun is_retry_sleep :: "call \<Rightarrow> bool" where
  "is_retry_sleep (Retry_sleep _) = True"
| "is_retry_sleep _ = False"

definition attempts :: "call list \<Rightarrow> nat" where
  "attempts tr = length (filter is_goto tr)"

definition retry_sleeps :: "call list \<Rightarrow> call list" where
  "retry_sleeps tr = filter is_retry_sleep tr"

text \<open>
  The world in which attempt number \<open>i\<close> of a run started in \<open>w\<close> begins, as long as
  the run goes on: attempt 0 begins in \<open>w\<close>, and each further attempt in the world after
  the delay that follows the attempt before it.
\<close>

primrec attempt_world :: "Config \<Rightarrow> engine \<Rightarrow> string \<Rightarrow> nat \<Rightarrow> world \<Rightarrow> world" where
  "attempt_world cfg eng url 0 w = w"
| "attempt_world cfg eng url (Suc i) w =
     attempt_world cfg eng url i (retry_world cfg (snd (fetch_attempt cfg eng url w)))"

text \<open>An engine whose first two navigations fail and whose later ones succeed.\<close>

definition flaky_engine :: engine where
  "flaky_engine = quiet_engine\<lparr>e_goto :=
      (\<lambda>tr. if attempts tr \<le> 2 then Inl (PlaywrightError ''net'') else Inr ())\<rparr>"

text \<open>
  An environment whose navigations all fail and whose interpreter admits no nested await
  once two attempts have been made.
\<close>

definition shallow_engine :: engine where
  "shallow_engine = failing_engine\<lparr>e_nested_await := (\<lambda>tr. attempts tr < 2)\<rparr>"

section \<open>Session states and the release sequence\<close>

definition all_present :: "BrowserManager \<Rightarrow> bool" where
  "all_present m \<longleftrightarrow>
     h_playwright m \<noteq> None \<and> h_browser m \<noteq> None \<and> h_context m \<noteq> None \<and> h_page m \<noteq> None"

definition all_absent :: "BrowserManager \<Rightarrow> bool" where
  "all_absent m \<longleftrightarrow>
     h_playwright m = None \<and> h_browser m = None \<and> h_context m = None \<and> h_page m = None"

definition all_or_nothing :: "BrowserManager \<Rightarrow> bool" where
  "all_or_nothing m \<longleftrightarrow> all_absent m \<or> all_present m"

text \<open>
  The release calls that the handles of a manager ask for: page, context, browser, engine,
  in this order, none for an absent handle.
\<close>

definition release_plan :: "BrowserManager \<Rightarrow> call list" where
  "release_plan m =
     (case h_page m of None \<Rightarrow> [] | Some p \<Rightarrow> [Page_close p]) @
     (case h_context m of None \<Rightarrow> [] | Some c \<Rightarrow> [Context_close c]) @
     (case h_browser m of None \<Rightarrow> [] | Some b \<Rightarrow> [Browser_close b]) @
     (case h_playwright m of None \<Rightarrow> [] | Some pw \<Rightarrow> [Stop pw])"

text \<open>The engine calls made between the world \<open>w\<close> and the later world \<open>w'\<close>.\<close>

definition new_calls :: "world \<Rightarrow> world \<Rightarrow> call list" where
  "new_calls w w' = drop (length (calls w)) (calls w')"

text \<open>
  What a run of release steps from the world \<open>w\<close> with the outcome \<open>res\<close> has done: it
  made an initial part of the release plan of \<open>w\<close> and nothing else; when it returned
  normally it made the whole plan and left no handle; when it raised, the handles still
  present are those of the call that failed and of the calls not made.
\<close>

definition released :: "world \<Rightarrow> (exn + unit) \<times> world \<Rightarrow> bool" where
  "released w res \<longleftrightarrow>
     calls (snd res) = calls w @ new_calls w (snd res)
   \<and> prefix (new_calls w (snd res)) (release_plan (mgr w))
   \<and> (case fst res of
         Inr _ \<Rightarrow> new_calls w (snd res) = release_plan (mgr w)
                  \<and> mgr (snd res) = BrowserManager_init
       | Inl _ \<Rightarrow> new_calls w (snd res) \<noteq> []
                  \<and> release_plan (mgr (snd res)) =
                      drop (length (new_calls w (snd res)) - 1) (release_plan (mgr w)))"

text \<open>The world in which the \<open>except\<close> clause of \<open>connect\<close> calls \<open>close\<close>.\<close>

definition launch_failed_world :: "Config \<Rightarrow> engine \<Rightarrow> world \<Rightarrow> world" where
  "launch_failed_world cfg eng w =
     log_w Error ''Failed to launch browser'' (snd (connect_body cfg eng w))"

text \<open>An engine none of whose launch steps fails.\<close>

definition launches_ok :: "engine \<Rightarrow> bool" where
  "launches_ok eng \<longleftrightarrow>
     (\<forall>tr. \<not> isl (e_start eng tr) \<and> \<not> isl (e_launch eng tr) \<and> \<not> isl (e_new_context eng tr)
         \<and> \<not> isl (e_new_page eng tr) \<and> \<not> isl (e_set_default_timeout eng tr)
         \<and> \<not> isl (e_set_default_navigation_timeout eng tr))"


definition stuck_context_engine :: engine where
  "stuck_context_engine =
     quiet_engine\<lparr>e_context_close := (\<lambda>_. Inl (PlaywrightError ''context busy''))\<rparr>"

definition no_page_engine :: engine where
  "no_page_engine = quiet_engine\<lparr>e_new_page := (\<lambda>_. Inl (PlaywrightError ''no page''))\<rparr>"

definition closed_world :: world where
  "closed_world = snd (close quiet_engine (snd (connect demo_config quiet_engine new_world)))"

section \<open>Pages and their fragments\<close>





text \<open>
  Engines whose wait for the list container times out, and whose wait returns no element.
\<close>

definition no_list_engine :: engine where
  "no_list_engine =
     quiet_engine\<lparr>e_wait_for_selector := (\<lambda>_. Inl (PlaywrightTimeoutError ''Timeout exceeded''))\<rparr>"


section \<open>Unfolding the control flow\<close>

lemmas prog_defs = ret_def raise_def bnd_def try_except_def log_def log_w_def sleep_def
  sleep_w_def invoke_def set_playwright_def set_browser_def set_context_def set_page_def
  page_attr_def

lemmas release_defs = release_page_def release_context_def release_browser_def
  release_playwright_def

lemma get_properties_no_page:
  "h_page (mgr w) = None \<Longrightarrow>
   get_properties cfg eng url rc w =
     (Inl (RuntimeError ''Browser not initialized. Call connect() first.''), w)"
  by (simp add: get_properties.simps)

lemma get_page_content_no_page:
  "h_page (mgr w) = None \<Longrightarrow>
   get_page_content cfg eng url w = (Inr None, log_w Error ''Failed to get page content'' w)"
  by (simp add: get_page_content_def page_content_body_def prog_defs)

lemma close_result: "fst (close eng w) = Inr ()"
  by (simp add: close_def try_except_def log_def split: prod.splits sum.splits)

lemma close_no_handles:
  "close eng \<lparr>mgr = BrowserManager_init, calls = cs, logs = ls\<rparr> =
     (Inr (), \<lparr>mgr = BrowserManager_init, calls = cs,
               logs = ls @ [(Info, ''Browser resources cleaned up'')]\<rparr>)"
  by (simp add: close_def close_body_def release_defs BrowserManager_init_def prog_defs)

section \<open>Fetching before \<open>connect\<close>\<close>

text \<open>
  C1 (as stated, refuted for \<open>get_page_content\<close>): on a newly constructed manager
  \<open>get_page_content\<close> does not fail with a "not initialized" error.  It has no guard
  on \<open>self._page\<close>; the attribute error of \<open>None.goto\<close> is caught by its own
  \<open>except\<close> clause and the call returns \<open>None\<close>.
\<close>

theorem get_page_content_before_connect_returns_none:
  "fst (get_page_content demo_config quiet_engine ''http://x'' new_world) = Inr None"
  by (simp add: get_page_content_no_page new_world_def BrowserManager_init_def)

text \<open>
  C1 (amended): whenever the page handle is absent, as it is before any \<open>connect()\<close>,
  \<open>get_properties\<close> fails, for every attempt counter and without any engine call, with the
  runtime error whose message names \<open>connect()\<close>, and leaves the world as it was;
  \<open>get_page_content\<close> on such a session returns \<open>None\<close> and raises nothing.
\<close>

theorem fetch_without_page:
  assumes "h_page (mgr w) = None"
  shows "get_properties cfg eng url rc w =
           (Inl (RuntimeError ''Browser not initialized. Call connect() first.''), w)
       \<and> str_in ''connect()'' ''Browser not initialized. Call connect() first.''
       \<and> fst (get_page_content cfg eng url w) = Inr None"
  using assms by (simp add: get_properties_no_page get_page_content_no_page)

theorem fetch_without_page_witness:
  "h_page (mgr new_world) = None
   \<and> get_properties demo_config quiet_engine ''http://x'' 0 new_world =
       (Inl (RuntimeError ''Browser not initialized. Call connect() first.''), new_world)
   \<and> fst (get_page_content demo_config quiet_engine ''http://x'' new_world) = Inr None"
proof -
  have h: "h_page (mgr new_world) = None"
    by (simp add: new_world_def BrowserManager_init_def)
  from fetch_without_page [OF h, of demo_config quiet_engine "''http://x''" 0] h
  show ?thesis by simp
qed

section \<open>\<open>close\<close> never raises\<close>

text \<open>
  C6: \<open>close()\<close> returns normally from every world and with every engine, whatever the
  release steps do; so does a second \<open>close()\<close> after it; and on a manager that was never
  connected (all handles absent) it makes no engine call and changes no handle.
\<close>

theorem close_never_raises:
  "fst (close eng w) = Inr ()
   \<and> fst (close eng' (snd (close eng w))) = Inr ()
   \<and> close eng \<lparr>mgr = BrowserManager_init, calls = cs, logs = ls\<rparr> =
       (Inr (), \<lparr>mgr = BrowserManager_init, calls = cs,
                 logs = ls @ [(Info, ''Browser resources cleaned up'')]\<rparr>)"
  by (simp add: close_result close_no_handles)

section \<open>What an attempt and a run touch\<close>

lemma collect_html_frame:
  "mgr (snd (collect_html eng els acc w)) = mgr w
   \<and> filter is_goto (calls (snd (collect_html eng els acc w))) = filter is_goto (calls w)
   \<and> filter is_retry_sleep (calls (snd (collect_html eng els acc w))) = filter is_retry_sleep (calls w)"
  by (induction els arbitrary: acc w) (auto simp: invoke_def split: sum.splits option.splits)

lemma collect_html_mgr: "collect_html eng els acc w = (r, w') \<Longrightarrow> mgr w' = mgr w"
  using collect_html_frame [of eng els acc w] by simp

lemma collect_html_gotos:
  "collect_html eng els acc w = (r, w') \<Longrightarrow> filter is_goto (calls w') = filter is_goto (calls w)"
  using collect_html_frame [of eng els acc w] by simp

lemma collect_html_retry_sleeps:
  "collect_html eng els acc w = (r, w') \<Longrightarrow>
   filter is_retry_sleep (calls w') = filter is_retry_sleep (calls w)"
  using collect_html_frame [of eng els acc w] by simp

lemma fetch_attempt_frame:
  "mgr (snd (fetch_attempt cfg eng url w)) = mgr w"
  by (auto simp: fetch_attempt_def prog_defs dest!: collect_html_mgr
      split: sum.splits option.splits prod.splits)

lemma fetch_attempt_gotos:
  "h_page (mgr w) \<noteq> None \<Longrightarrow>
   length (filter is_goto (calls (snd (fetch_attempt cfg eng url w)))) = Suc (length (filter is_goto (calls w)))"
  by (auto simp: fetch_attempt_def prog_defs dest!: collect_html_gotos
      split: sum.splits option.splits prod.splits)

lemma fetch_attempt_retry_sleeps:
  "filter is_retry_sleep (calls (snd (fetch_attempt cfg eng url w))) = filter is_retry_sleep (calls w)"
  by (auto simp: fetch_attempt_def prog_defs dest!: collect_html_retry_sleeps
      split: sum.splits option.splits prod.splits)

lemma page_content_frame:
  "mgr (snd (get_page_content cfg eng url w)) = mgr w"
  by (auto simp: get_page_content_def page_content_body_def prog_defs split: sum.splits option.splits prod.splits)

lemma get_properties_returns:
  "h_page (mgr w) \<noteq> None \<Longrightarrow> fetch_attempt cfg eng url w = (Inr xs, w1) \<Longrightarrow>
   get_properties cfg eng url rc w = (Inr xs, w1)"
  by (auto simp: get_properties.simps [of cfg eng url rc w])

lemma get_properties_retries:
  "h_page (mgr w) \<noteq> None \<Longrightarrow> fetch_attempt cfg eng url w = (Inl e, w1) \<Longrightarrow>
   rc < max_retries cfg \<Longrightarrow> \<not> true_div_overflows (retry_delay cfg) 1000 \<Longrightarrow>
   e_nested_await eng (calls (retry_world cfg w1)) \<Longrightarrow>
   get_properties cfg eng url rc w = get_properties cfg eng url (rc + 1) (retry_world cfg w1)"
  by (auto simp: get_properties.simps [of cfg eng url rc w])

lemma get_properties_gives_up:
  "h_page (mgr w) \<noteq> None \<Longrightarrow> fetch_attempt cfg eng url w = (Inl e, w1) \<Longrightarrow>
   \<not> rc < max_retries cfg \<Longrightarrow>
   get_properties cfg eng url rc w = (Inl e, log_w Error ''Error fetching properties'' w1)"
  by (auto simp: get_properties.simps [of cfg eng url rc w])

lemma get_properties_overflows:
  "h_page (mgr w) \<noteq> None \<Longrightarrow> fetch_attempt cfg eng url w = (Inl e, w1) \<Longrightarrow>
   rc < max_retries cfg \<Longrightarrow> true_div_overflows (retry_delay cfg) 1000 \<Longrightarrow>
   get_properties cfg eng url rc w =
     (Inl (OverflowError ''integer division result too large for a float''),
      log_w Info ''Retrying'' (log_w Error ''Error fetching properties'' w1))"
  by (auto simp: get_properties.simps [of cfg eng url rc w])

lemma get_properties_too_deep:
  "h_page (mgr w) \<noteq> None \<Longrightarrow> fetch_attempt cfg eng url w = (Inl e, w1) \<Longrightarrow>
   rc < max_retries cfg \<Longrightarrow> \<not> true_div_overflows (retry_delay cfg) 1000 \<Longrightarrow>
   \<not> e_nested_await eng (calls (retry_world cfg w1)) \<Longrightarrow>
   get_properties cfg eng url rc w =
     (Inl (RecursionError ''maximum recursion depth exceeded''), retry_world cfg w1)"
  by (auto simp: get_properties.simps [of cfg eng url rc w])

lemma attempt_facts:
  assumes "fetch_attempt cfg eng url w = (r, w1)" "h_page (mgr w) \<noteq> None"
  shows "mgr w1 = mgr w" "attempts (calls w1) = Suc (attempts (calls w))"
        "retry_sleeps (calls w1) = retry_sleeps (calls w)"
  using assms fetch_attempt_frame [of cfg eng url w] fetch_attempt_gotos [of w cfg eng url]
    fetch_attempt_retry_sleeps [of cfg eng url w]
  by (simp_all add: attempts_def retry_sleeps_def)

lemma retry_world_facts:
  "mgr (retry_world cfg w1) = mgr w1"
  "attempts (calls (retry_world cfg w1)) = attempts (calls w1)"
  "retry_sleeps (calls (retry_world cfg w1)) = retry_sleeps (calls w1) @ [Retry_sleep (retry_delay cfg)]"
  by (simp_all add: retry_world_def sleep_w_def log_w_def attempts_def retry_sleeps_def)

lemma log_w_facts:
  "mgr (log_w lv msg w) = mgr w" "calls (log_w lv msg w) = calls w"
  by (simp_all add: log_w_def)

lemma get_properties_frame:
  "mgr (snd (get_properties cfg eng url rc w)) = mgr w"
proof (induction cfg eng url rc w rule: get_properties.induct)
  case (1 cfg eng url rc w)
  show ?case
  proof (cases "h_page (mgr w)")
    case None
    then show ?thesis by (simp add: get_properties.simps)
  next
    case (Some p)
    then have page: "h_page (mgr w) \<noteq> None" by simp
    obtain r w1 where fa: "fetch_attempt cfg eng url w = (r, w1)"
      by (cases "fetch_attempt cfg eng url w")
    have m1: "mgr w1 = mgr w" using fetch_attempt_frame [of cfg eng url w] fa by simp
    show ?thesis
    proof (cases r)
      case (Inr xs)
      with get_properties_returns [OF page fa [unfolded Inr], of rc] m1 show ?thesis by simp
    next
      case (Inl e)
      note fl = fa [unfolded Inl]
      show ?thesis
      proof (cases "rc < max_retries cfg")
        case False
        from get_properties_gives_up [OF page fl False] m1 show ?thesis
          by (simp add: log_w_facts)
      next
        case True
        show ?thesis
        proof (cases "true_div_overflows (retry_delay cfg) 1000")
          case over: True
          from get_properties_overflows [OF page fl True over] m1 show ?thesis
            by (simp add: log_w_facts)
        next
          case fits: False
          show ?thesis
          proof (cases "e_nested_await eng (calls (retry_world cfg w1))")
            case deep: False
            from get_properties_too_deep [OF page fl True fits deep] m1 show ?thesis
              by (simp add: retry_world_facts)
          next
            case admitted: True
            have n: "\<not> \<not> e_nested_await eng (calls (retry_world cfg w1))"
              using admitted by simp
            from "1.IH" [OF Some fa [symmetric] Inl True fits n]
            show ?thesis
              unfolding get_properties_retries [OF page fl True fits admitted]
              using m1 by (simp add: retry_world_facts)
          qed
        qed
      qed
    qed
  qed
qed

section \<open>The attempts of a run\<close>

lemma attempt_world_mgr: "mgr (attempt_world cfg eng url i w) = mgr w"
proof (induction i arbitrary: w)
  case 0
  show ?case by simp
next
  case (Suc i)
  show ?case
    using fetch_attempt_frame [of cfg eng url w]
    by (simp add: Suc.IH retry_world_facts)
qed

lemma attempt_world_calls:
  "h_page (mgr w) \<noteq> None \<Longrightarrow>
     attempts (calls (attempt_world cfg eng url i w)) = attempts (calls w) + i
   \<and> retry_sleeps (calls (attempt_world cfg eng url i w)) =
       retry_sleeps (calls w) @ replicate i (Retry_sleep (retry_delay cfg))"
proof (induction i arbitrary: w)
  case 0
  show ?case by simp
next
  case (Suc i)
  obtain r w1 where fa: "fetch_attempt cfg eng url w = (r, w1)"
    by (cases "fetch_attempt cfg eng url w")
  note aw = attempt_facts [OF fa Suc.prems]
  have page2: "h_page (mgr (retry_world cfg w1)) \<noteq> None"
    using Suc.prems aw by (simp add: retry_world_facts)
  from Suc.IH [OF page2] show ?case
    using fa aw by (simp add: retry_world_facts replicate_append_same)
qed

lemma run_succeeds:
  assumes fits: "\<not> true_div_overflows (retry_delay cfg) 1000"
  shows "h_page (mgr w) \<noteq> None \<Longrightarrow>
   \<forall>i<k. isl (fst (fetch_attempt cfg eng url (attempt_world cfg eng url i w))) \<Longrightarrow>
   \<forall>i<k. e_nested_await eng (calls (attempt_world cfg eng url (Suc i) w)) \<Longrightarrow>
   \<not> isl (fst (fetch_attempt cfg eng url (attempt_world cfg eng url k w))) \<Longrightarrow>
   rc + int k \<le> max_retries cfg \<Longrightarrow>
   get_properties cfg eng url rc w = fetch_attempt cfg eng url (attempt_world cfg eng url k w)"
proof (induction k arbitrary: w rc)
  case 0
  obtain r w1 where fa: "fetch_attempt cfg eng url w = (r, w1)"
    by (cases "fetch_attempt cfg eng url w")
  with "0.prems"(4) obtain xs where r: "r = Inr xs" by (cases r) auto
  from get_properties_returns [OF "0.prems"(1) fa [unfolded r], of rc] fa r
  show ?case by simp
next
  case (Suc k)
  note page = Suc.prems(1) and F = Suc.prems(2) and N = Suc.prems(3) and S = Suc.prems(4)
    and near = Suc.prems(5)
  obtain r w1 where fa: "fetch_attempt cfg eng url w = (r, w1)"
    by (cases "fetch_attempt cfg eng url w")
  from F have "isl (fst (fetch_attempt cfg eng url (attempt_world cfg eng url 0 w)))" by blast
  with fa obtain e where r: "r = Inl e" by (cases r) auto
  have more: "rc < max_retries cfg" using near by simp
  from N have "e_nested_await eng (calls (attempt_world cfg eng url (Suc 0) w))" by blast
  then have adm: "e_nested_await eng (calls (retry_world cfg w1))" using fa by simp
  have page2: "h_page (mgr (retry_world cfg w1)) \<noteq> None"
    using page attempt_facts(1) [OF fa page] by (simp add: retry_world_facts)
  have F2: "\<forall>i<k. isl (fst (fetch_attempt cfg eng url
              (attempt_world cfg eng url i (retry_world cfg w1))))"
  proof (intro allI impI)
    fix i assume "i < k"
    then have "Suc i < Suc k" by simp
    with F have "isl (fst (fetch_attempt cfg eng url (attempt_world cfg eng url (Suc i) w)))"
      by blast
    then show "isl (fst (fetch_attempt cfg eng url
              (attempt_world cfg eng url i (retry_world cfg w1))))" using fa by simp
  qed
  have N2: "\<forall>i<k. e_nested_await eng
              (calls (attempt_world cfg eng url (Suc i) (retry_world cfg w1)))"
  proof (intro allI impI)
    fix i assume "i < k"
    then have "Suc i < Suc k" by simp
    with N have "e_nested_await eng (calls (attempt_world cfg eng url (Suc (Suc i)) w))"
      by blast
    then show "e_nested_await eng
              (calls (attempt_world cfg eng url (Suc i) (retry_world cfg w1)))" using fa by simp
  qed
  have S2: "\<not> isl (fst (fetch_attempt cfg eng url
              (attempt_world cfg eng url k (retry_world cfg w1))))"
    using S fa by simp
  have near2: "rc + 1 + int k \<le> max_retries cfg" using near by simp
  from Suc.IH [OF page2 F2 N2 S2 near2]
  show ?case
    unfolding get_properties_retries [OF page fa [unfolded r] more fits adm]
    using fa by simp
qed

lemma run_gives_up:
  assumes fits: "\<not> true_div_overflows (retry_delay cfg) 1000"
  shows "h_page (mgr w) \<noteq> None \<Longrightarrow>
   \<forall>i\<le>j. isl (fst (fetch_attempt cfg eng url (attempt_world cfg eng url i w))) \<Longrightarrow>
   \<forall>i<j. e_nested_await eng (calls (attempt_world cfg eng url (Suc i) w)) \<Longrightarrow>
   max_retries cfg - rc = int j \<Longrightarrow>
   get_properties cfg eng url rc w =
     (fst (fetch_attempt cfg eng url (attempt_world cfg eng url j w)),
      log_w Error ''Error fetching properties''
        (snd (fetch_attempt cfg eng url (attempt_world cfg eng url j w))))"
proof (induction j arbitrary: w rc)
  case 0
  obtain r w1 where fa: "fetch_attempt cfg eng url w = (r, w1)"
    by (cases "fetch_attempt cfg eng url w")
  from "0.prems"(2) have "isl (fst (fetch_attempt cfg eng url (attempt_world cfg eng url 0 w)))"
    by blast
  with fa obtain e where r: "r = Inl e" by (cases r) auto
  have "\<not> rc < max_retries cfg" using "0.prems"(4) by simp
  from get_properties_gives_up [OF "0.prems"(1) fa [unfolded r] this] fa r
  show ?case by simp
next
  case (Suc j)
  note page = Suc.prems(1) and F = Suc.prems(2) and N = Suc.prems(3) and d = Suc.prems(4)
  obtain r w1 where fa: "fetch_attempt cfg eng url w = (r, w1)"
    by (cases "fetch_attempt cfg eng url w")
  from F have "isl (fst (fetch_attempt cfg eng url (attempt_world cfg eng url 0 w)))" by blast
  with fa obtain e where r: "r = Inl e" by (cases r) auto
  have more: "rc < max_retries cfg" using d by simp
  from N have "e_nested_await eng (calls (attempt_world cfg eng url (Suc 0) w))" by blast
  then have adm: "e_nested_await eng (calls (retry_world cfg w1))" using fa by simp
  have page2: "h_page (mgr (retry_world cfg w1)) \<noteq> None"
    using page attempt_facts(1) [OF fa page] by (simp add: retry_world_facts)
  have F2: "\<forall>i\<le>j. isl (fst (fetch_attempt cfg eng url
              (attempt_world cfg eng url i (retry_world cfg w1))))"
  proof (intro allI impI)
    fix i assume "i \<le> j"
    then have "Suc i \<le> Suc j" by simp
    with F have "isl (fst (fetch_attempt cfg eng url (attempt_world cfg eng url (Suc i) w)))"
      by blast
    then show "isl (fst (fetch_attempt cfg eng url
              (attempt_world cfg eng url i (retry_world cfg w1))))" using fa by simp
  qed
  have N2: "\<forall>i<j. e_nested_await eng
              (calls (attempt_world cfg eng url (Suc i) (retry_world cfg w1)))"
  proof (intro allI impI)
    fix i assume "i < j"
    then have "Suc i < Suc j" by simp
    with N have "e_nested_await eng (calls (attempt_world cfg eng url (Suc (Suc i)) w))"
      by blast
    then show "e_nested_await eng
              (calls (attempt_world cfg eng url (Suc i) (retry_world cfg w1)))" using fa by simp
  qed
  have d2: "max_retries cfg - (rc + 1) = int j" using d by simp
  from Suc.IH [OF page2 F2 N2 d2]
  show ?case
    unfolding get_properties_retries [OF page fa [unfolded r] more fits adm]
    using fa by simp
qed

section \<open>The retry policy of \<open>get_properties\<close>\<close>

lemma flaky_fails_twice:
  "h_page (mgr w') \<noteq> None \<Longrightarrow> attempts (calls w') < 2 \<Longrightarrow>
   isl (fst (fetch_attempt demo_config flaky_engine ''http://x'' w'))"
  by (auto simp: fetch_attempt_def prog_defs flaky_engine_def attempts_def)

lemma flaky_then_succeeds:
  "h_page (mgr w') \<noteq> None \<Longrightarrow> attempts (calls w') = 2 \<Longrightarrow>
   \<not> isl (fst (fetch_attempt demo_config flaky_engine ''http://x'' w'))"
  by (auto simp: fetch_attempt_def prog_defs flaky_engine_def quiet_engine_def attempts_def
      demo_config_def)

lemma failing_always_fails:
  "h_page (mgr w') \<noteq> None \<Longrightarrow>
   fst (fetch_attempt cfg failing_engine url w') = Inl (PlaywrightTimeoutError ''navigation'')"
  by (auto simp: fetch_attempt_def prog_defs failing_engine_def)

lemma demo_delay_fits: "\<not> true_div_overflows (retry_delay demo_config) 1000"
  by (simp add: true_div_overflows_def demo_config_def)

lemma huge_delay_overflows: "true_div_overflows (retry_delay huge_delay_config) 1000"
  by (simp add: true_div_overflows_def huge_delay_config_def)

lemma flaky_first_attempt:
  "fst (fetch_attempt demo_config flaky_engine ''http://x'' ready_world) = Inl (PlaywrightError ''net'')"
  by (simp add: fetch_attempt_def prog_defs flaky_engine_def attempts_def ready_world_def)

lemma flaky_admits: "e_nested_await flaky_engine tr" "e_nested_await failing_engine tr"
  by (simp_all add: flaky_engine_def failing_engine_def quiet_engine_def)

text \<open>
  The retry also ends early when the interpreter admits no further nested await: with an
  environment that refuses it once two attempts have been made, the run ends after two
  attempts with a recursion error, although the retry limit is 2.
\<close>

lemma shallow_always_fails:
  "h_page (mgr w') \<noteq> None \<Longrightarrow>
   fst (fetch_attempt cfg shallow_engine url w') = Inl (PlaywrightTimeoutError ''navigation'')"
  by (auto simp: fetch_attempt_def prog_defs shallow_engine_def failing_engine_def)

lemma nesting_refused_stops_the_retry:
  "fst (get_properties demo_config shallow_engine ''http://x'' 0 ready_world) =
     Inl (RecursionError ''maximum recursion depth exceeded'')
   \<and> attempts (calls (snd (get_properties demo_config shallow_engine ''http://x'' 0 ready_world))) = 2"
proof -
  have page: "h_page (mgr ready_world) \<noteq> None" by (simp add: ready_world_def)
  have zero: "attempts (calls ready_world) = 0" by (simp add: ready_world_def attempts_def)
  obtain r w1 where fa: "fetch_attempt demo_config shallow_engine ''http://x'' ready_world = (r, w1)"
    by (cases "fetch_attempt demo_config shallow_engine ''http://x'' ready_world")
  with shallow_always_fails [OF page, of demo_config "''http://x''"]
  have r: "r = Inl (PlaywrightTimeoutError ''navigation'')" by simp
  note aw = attempt_facts [OF fa page]
  define w2 where "w2 = retry_world demo_config w1"
  have page2: "h_page (mgr w2) \<noteq> None" using page aw by (simp add: w2_def retry_world_facts)
  have c2: "attempts (calls w2) = 1" using aw zero by (simp add: w2_def retry_world_facts)
  obtain r' w3 where fb: "fetch_attempt demo_config shallow_engine ''http://x'' w2 = (r', w3)"
    by (cases "fetch_attempt demo_config shallow_engine ''http://x'' w2")
  with shallow_always_fails [OF page2, of demo_config "''http://x''"]
  have r': "r' = Inl (PlaywrightTimeoutError ''navigation'')" by simp
  note bw = attempt_facts [OF fb page2]
  have c4: "attempts (calls (retry_world demo_config w3)) = 2"
    using bw c2 by (simp add: retry_world_facts)
  have adm: "e_nested_await shallow_engine (calls (retry_world demo_config w1))"
    using c2 by (simp add: shallow_engine_def w2_def)
  have ref: "\<not> e_nested_await shallow_engine (calls (retry_world demo_config w3))"
    using c4 by (simp add: shallow_engine_def)
  have m0: "(0::int) < max_retries demo_config" "(0::int) + 1 < max_retries demo_config"
    by (simp_all add: demo_config_def)
  from get_properties_retries [OF page fa [unfolded r] m0(1) demo_delay_fits adm]
    get_properties_too_deep [OF page2 fb [unfolded r'] m0(2) demo_delay_fits ref, unfolded w2_def]
  show ?thesis using c4 by simp
qed

text \<open>
  C3 (as stated, refuted): with a retry limit of 2, a page whose navigation always fails
  and a configured retry delay of \<open>10 ^ 400\<close>, the first failed attempt is not followed
  by a delay and a retry: computing \<open>retry_delay / 1000\<close> overflows, and the call raises
  that error after one attempt and no delay, not after \<open>max_retries + 1 = 3\<close> attempts.
\<close>

theorem huge_retry_delay_stops_the_retry:
  "0 < max_retries huge_delay_config
   \<and> fst (get_properties huge_delay_config failing_engine ''http://x'' 0 ready_world) =
       Inl (OverflowError ''integer division result too large for a float'')
   \<and> attempts (calls (snd (get_properties huge_delay_config failing_engine ''http://x'' 0
         ready_world))) = 1
   \<and> retry_sleeps (calls (snd (get_properties huge_delay_config failing_engine ''http://x'' 0
         ready_world))) = []"
proof -
  have page: "h_page (mgr ready_world) \<noteq> None" by (simp add: ready_world_def)
  have more: "0 < max_retries huge_delay_config"
    by (simp add: huge_delay_config_def demo_config_def)
  obtain r w1 where fa: "fetch_attempt huge_delay_config failing_engine ''http://x'' ready_world
      = (r, w1)"
    by (cases "fetch_attempt huge_delay_config failing_engine ''http://x'' ready_world")
  with failing_always_fails [OF page, of huge_delay_config "''http://x''"]
  have r: "r = Inl (PlaywrightTimeoutError ''navigation'')" by simp
  note aw = attempt_facts [OF fa page]
  have zero: "attempts (calls ready_world) = 0" "retry_sleeps (calls ready_world) = []"
    by (simp_all add: ready_world_def attempts_def retry_sleeps_def)
  from get_properties_overflows [OF page fa [unfolded r] more huge_delay_overflows]
  show ?thesis using more aw zero by (simp add: log_w_facts)
qed

text \<open>
  C3 (amended): on a connected session, a failed attempt with the counter below the limit
  is followed, provided that \<open>retry_delay / 1000\<close> is representable as a float and the
  interpreter admits the nested await, by the constant configured delay and by the whole
  operation again with the counter increased by one; with the counter at the limit the
  error of the attempt propagates.  For a non-negative limit and a representable delay,
  consider the run started at counter 0 and its own attempts, numbered from 0, the
  interpreter admitting the nested awaits the run needs.  If its first \<open>k\<close> attempts
  fail (at whatever step), \<open>k\<close> is at most the limit and attempt \<open>k\<close> succeeds, the
  call returns the result of attempt \<open>k\<close> after exactly \<open>k + 1\<close> attempts and
  \<open>k\<close> delays, each of the configured length (the case of the claim is \<open>k = 2\<close> with
  limit 2).  If all its attempts up to number \<open>max_retries\<close> fail, as for a page that
  always fails, the call raises the error of the last one after exactly
  \<open>max_retries + 1\<close> attempts and \<open>max_retries\<close> delays.
\<close>

theorem get_properties_retry_policy:
  assumes page: "h_page (mgr w) \<noteq> None"
  shows "(fst (fetch_attempt cfg eng url w) = Inl e
          \<and> (rc < max_retries cfg \<longrightarrow>
                \<not> true_div_overflows (retry_delay cfg) 1000
              \<and> e_nested_await eng
                  (calls (retry_world cfg (snd (fetch_attempt cfg eng url w)))))
         \<longrightarrow> get_properties cfg eng url rc w =
              (if rc < max_retries cfg
               then get_properties cfg eng url (rc + 1)
                      (retry_world cfg (snd (fetch_attempt cfg eng url w)))
               else (Inl e, log_w Error ''Error fetching properties''
                              (snd (fetch_attempt cfg eng url w)))))
       \<and> (0 \<le> max_retries cfg \<and> \<not> true_div_overflows (retry_delay cfg) 1000
          \<and> (\<forall>i<k. int i \<le> max_retries cfg \<longrightarrow>
                isl (fst (fetch_attempt cfg eng url (attempt_world cfg eng url i w))))
          \<and> (\<forall>i<k. int i < max_retries cfg \<longrightarrow>
                e_nested_await eng (calls (attempt_world cfg eng url (Suc i) w)))
          \<and> (int k \<le> max_retries cfg \<longrightarrow>
                \<not> isl (fst (fetch_attempt cfg eng url (attempt_world cfg eng url k w))))
         \<longrightarrow> (if int k \<le> max_retries cfg
              then \<not> isl (fst (get_properties cfg eng url 0 w))
                 \<and> get_properties cfg eng url 0 w =
                     fetch_attempt cfg eng url (attempt_world cfg eng url k w)
                 \<and> attempts (calls (snd (get_properties cfg eng url 0 w))) =
                     attempts (calls w) + k + 1
                 \<and> retry_sleeps (calls (snd (get_properties cfg eng url 0 w))) =
                     retry_sleeps (calls w) @ replicate k (Retry_sleep (retry_delay cfg))
              else isl (fst (get_properties cfg eng url 0 w))
                 \<and> fst (get_properties cfg eng url 0 w) =
                     fst (fetch_attempt cfg eng url
                            (attempt_world cfg eng url (nat (max_retries cfg)) w))
                 \<and> attempts (calls (snd (get_properties cfg eng url 0 w))) =
                     attempts (calls w) + nat (max_retries cfg) + 1
                 \<and> retry_sleeps (calls (snd (get_properties cfg eng url 0 w))) =
                     retry_sleeps (calls w) @
                       replicate (nat (max_retries cfg)) (Retry_sleep (retry_delay cfg))))"
proof (intro conjI impI)
  assume a: "fst (fetch_attempt cfg eng url w) = Inl e
          \<and> (rc < max_retries cfg \<longrightarrow>
                \<not> true_div_overflows (retry_delay cfg) 1000
              \<and> e_nested_await eng
                  (calls (retry_world cfg (snd (fetch_attempt cfg eng url w)))))"
  then have fa: "fetch_attempt cfg eng url w = (Inl e, snd (fetch_attempt cfg eng url w))"
    by (cases "fetch_attempt cfg eng url w") simp
  show "get_properties cfg eng url rc w =
          (if rc < max_retries cfg
           then get_properties cfg eng url (rc + 1)
                  (retry_world cfg (snd (fetch_attempt cfg eng url w)))
           else (Inl e, log_w Error ''Error fetching properties''
                          (snd (fetch_attempt cfg eng url w))))"
  proof (cases "rc < max_retries cfg")
    case True
    with a get_properties_retries [OF page fa True] show ?thesis by simp
  next
    case False
    with get_properties_gives_up [OF page fa False] show ?thesis by simp
  qed
next
  assume a: "0 \<le> max_retries cfg \<and> \<not> true_div_overflows (retry_delay cfg) 1000
          \<and> (\<forall>i<k. int i \<le> max_retries cfg \<longrightarrow>
                isl (fst (fetch_attempt cfg eng url (attempt_world cfg eng url i w))))
          \<and> (\<forall>i<k. int i < max_retries cfg \<longrightarrow>
                e_nested_await eng (calls (attempt_world cfg eng url (Suc i) w)))
          \<and> (int k \<le> max_retries cfg \<longrightarrow>
                \<not> isl (fst (fetch_attempt cfg eng url (attempt_world cfg eng url k w))))"
  then have nonneg: "0 \<le> max_retries cfg"
    and fits: "\<not> true_div_overflows (retry_delay cfg) 1000"
    and F: "\<And>i. i < k \<Longrightarrow> int i \<le> max_retries cfg \<Longrightarrow>
              isl (fst (fetch_attempt cfg eng url (attempt_world cfg eng url i w)))"
    and N: "\<And>i. i < k \<Longrightarrow> int i < max_retries cfg \<Longrightarrow>
              e_nested_await eng (calls (attempt_world cfg eng url (Suc i) w))"
    and S: "int k \<le> max_retries cfg \<Longrightarrow>
              \<not> isl (fst (fetch_attempt cfg eng url (attempt_world cfg eng url k w)))"
    by blast+
  show "if int k \<le> max_retries cfg
        then \<not> isl (fst (get_properties cfg eng url 0 w))
           \<and> get_properties cfg eng url 0 w =
               fetch_attempt cfg eng url (attempt_world cfg eng url k w)
           \<and> attempts (calls (snd (get_properties cfg eng url 0 w))) =
               attempts (calls w) + k + 1
           \<and> retry_sleeps (calls (snd (get_properties cfg eng url 0 w))) =
               retry_sleeps (calls w) @ replicate k (Retry_sleep (retry_delay cfg))
        else isl (fst (get_properties cfg eng url 0 w))
           \<and> fst (get_properties cfg eng url 0 w) =
               fst (fetch_attempt cfg eng url
                      (attempt_world cfg eng url (nat (max_retries cfg)) w))
           \<and> attempts (calls (snd (get_properties cfg eng url 0 w))) =
               attempts (calls w) + nat (max_retries cfg) + 1
           \<and> retry_sleeps (calls (snd (get_properties cfg eng url 0 w))) =
               retry_sleeps (calls w) @
                 replicate (nat (max_retries cfg)) (Retry_sleep (retry_delay cfg))"
  proof (cases "int k \<le> max_retries cfg")
    case True
    define wk where "wk = attempt_world cfg eng url k w"
    have pk: "h_page (mgr wk) \<noteq> None" using page by (simp add: wk_def attempt_world_mgr)
    have eq: "get_properties cfg eng url 0 w = fetch_attempt cfg eng url wk"
      unfolding wk_def
    proof (rule run_succeeds [OF fits page])
      show "\<forall>i<k. isl (fst (fetch_attempt cfg eng url (attempt_world cfg eng url i w)))"
        using F True by auto
      show "\<forall>i<k. e_nested_await eng (calls (attempt_world cfg eng url (Suc i) w))"
        using N True by auto
      show "\<not> isl (fst (fetch_attempt cfg eng url (attempt_world cfg eng url k w)))"
        using S True by simp
      show "0 + int k \<le> max_retries cfg" using True by simp
    qed
    obtain r w1 where fa: "fetch_attempt cfg eng url wk = (r, w1)"
      by (cases "fetch_attempt cfg eng url wk")
    note aw = attempt_facts [OF fa pk]
    note ac = attempt_world_calls [OF page, of cfg eng url k]
    from S True fa have "\<not> isl r" by (simp add: wk_def)
    then show ?thesis using True eq fa aw ac by (simp add: wk_def [symmetric])
  next
    case False
    define j where "j = nat (max_retries cfg)"
    define wj where "wj = attempt_world cfg eng url j w"
    have jk: "j < k" using False nonneg by (simp add: j_def)
    have pj: "h_page (mgr wj) \<noteq> None" using page by (simp add: wj_def attempt_world_mgr)
    have eq: "get_properties cfg eng url 0 w =
        (fst (fetch_attempt cfg eng url wj),
         log_w Error ''Error fetching properties'' (snd (fetch_attempt cfg eng url wj)))"
      unfolding wj_def
    proof (rule run_gives_up [OF fits page])
      show "\<forall>i\<le>j. isl (fst (fetch_attempt cfg eng url (attempt_world cfg eng url i w)))"
        using F jk nonneg by (auto simp: j_def)
      show "\<forall>i<j. e_nested_await eng (calls (attempt_world cfg eng url (Suc i) w))"
        using N jk nonneg by (auto simp: j_def)
      show "max_retries cfg - 0 = int j" using nonneg by (simp add: j_def)
    qed
    obtain r w1 where fa: "fetch_attempt cfg eng url wj = (r, w1)"
      by (cases "fetch_attempt cfg eng url wj")
    note aw = attempt_facts [OF fa pj]
    note ac = attempt_world_calls [OF page, of cfg eng url j]
    from F [OF jk] nonneg fa have "isl r" by (simp add: wj_def j_def)
    then show ?thesis using False eq fa aw ac
      by (simp add: wj_def [symmetric] j_def [symmetric] log_w_facts)
  qed
qed

theorem get_properties_retry_policy_witness:
  "h_page (mgr ready_world) \<noteq> None
   \<and> get_properties demo_config flaky_engine ''http://x'' 0 ready_world =
       get_properties demo_config flaky_engine ''http://x'' 1
         (retry_world demo_config
            (snd (fetch_attempt demo_config flaky_engine ''http://x'' ready_world)))
   \<and> \<not> isl (fst (get_properties demo_config flaky_engine ''http://x'' 0 ready_world))
   \<and> attempts (calls (snd (get_properties demo_config flaky_engine ''http://x'' 0 ready_world))) = 3
   \<and> retry_sleeps (calls (snd (get_properties demo_config flaky_engine ''http://x'' 0 ready_world)))
       = [Retry_sleep 1000, Retry_sleep 1000]
   \<and> isl (fst (get_properties demo_config failing_engine ''http://x'' 0 ready_world))
   \<and> attempts (calls (snd (get_properties demo_config failing_engine ''http://x'' 0 ready_world))) = 3
   \<and> retry_sleeps (calls (snd (get_properties demo_config failing_engine ''http://x'' 0 ready_world)))
       = [Retry_sleep 1000, Retry_sleep 1000]"
proof -
  have page: "h_page (mgr ready_world) \<noteq> None" by (simp add: ready_world_def)
  have zero: "attempts (calls ready_world) = 0" "retry_sleeps (calls ready_world) = []"
    by (simp_all add: ready_world_def attempts_def retry_sleeps_def)
  have md: "max_retries demo_config = 2" "retry_delay demo_config = 1000"
    by (simp_all add: demo_config_def)
  have pw: "\<And>eng i. h_page (mgr (attempt_world demo_config eng ''http://x'' i ready_world)) \<noteq> None"
    using page by (simp add: attempt_world_mgr)
  have cnt: "\<And>eng i. attempts (calls (attempt_world demo_config eng ''http://x'' i ready_world)) = i"
    using attempt_world_calls [OF page, of demo_config _ "''http://x''"] zero by simp
  have step: "fst (fetch_attempt demo_config flaky_engine ''http://x'' ready_world)
                = Inl (PlaywrightError ''net'')
          \<and> (0 < max_retries demo_config \<longrightarrow>
                \<not> true_div_overflows (retry_delay demo_config) 1000
              \<and> e_nested_await flaky_engine
                  (calls (retry_world demo_config
                     (snd (fetch_attempt demo_config flaky_engine ''http://x'' ready_world)))))"
    using flaky_first_attempt demo_delay_fits flaky_admits by simp
  have run_flaky: "0 \<le> max_retries demo_config
          \<and> \<not> true_div_overflows (retry_delay demo_config) 1000
          \<and> (\<forall>i<2. int i \<le> max_retries demo_config \<longrightarrow>
                isl (fst (fetch_attempt demo_config flaky_engine ''http://x''
                       (attempt_world demo_config flaky_engine ''http://x'' i ready_world))))
          \<and> (\<forall>i<2. int i < max_retries demo_config \<longrightarrow>
                e_nested_await flaky_engine
                  (calls (attempt_world demo_config flaky_engine ''http://x'' (Suc i) ready_world)))
          \<and> (int 2 \<le> max_retries demo_config \<longrightarrow>
                \<not> isl (fst (fetch_attempt demo_config flaky_engine ''http://x''
                         (attempt_world demo_config flaky_engine ''http://x'' 2 ready_world))))"
    using demo_delay_fits flaky_admits flaky_fails_twice [OF pw] flaky_then_succeeds [OF pw]
    by (simp add: md cnt)
  have run_failing: "0 \<le> max_retries demo_config
          \<and> \<not> true_div_overflows (retry_delay demo_config) 1000
          \<and> (\<forall>i<3. int i \<le> max_retries demo_config \<longrightarrow>
                isl (fst (fetch_attempt demo_config failing_engine ''http://x''
                       (attempt_world demo_config failing_engine ''http://x'' i ready_world))))
          \<and> (\<forall>i<3. int i < max_retries demo_config \<longrightarrow>
                e_nested_await failing_engine
                  (calls (attempt_world demo_config failing_engine ''http://x'' (Suc i) ready_world)))
          \<and> (int 3 \<le> max_retries demo_config \<longrightarrow>
                \<not> isl (fst (fetch_attempt demo_config failing_engine ''http://x''
                         (attempt_world demo_config failing_engine ''http://x'' 3 ready_world))))"
    using demo_delay_fits flaky_admits failing_always_fails [OF pw]
    by (simp add: md)
  note a = get_properties_retry_policy [OF page, of demo_config flaky_engine "''http://x''"
      "PlaywrightError ''net''" 0 2]
  note b = get_properties_retry_policy [OF page, of demo_config failing_engine "''http://x''"
      "PlaywrightError ''net''" 0 3]
  have rep: "\<And>x::call. replicate 2 x = [x, x]" by (simp add: numeral_2_eq_2)
  have k2: "int 2 \<le> max_retries demo_config" and k3: "\<not> int 3 \<le> max_retries demo_config"
    and m0: "(0::int) < max_retries demo_config" and n2: "nat (max_retries demo_config) = 2"
    by (simp_all add: md)
  from a [THEN conjunct1, THEN mp, OF step] m0
  have s1: "get_properties demo_config flaky_engine ''http://x'' 0 ready_world =
       get_properties demo_config flaky_engine ''http://x'' 1
         (retry_world demo_config
            (snd (fetch_attempt demo_config flaky_engine ''http://x'' ready_world)))"
    by simp
  note f = a [THEN conjunct2, THEN mp, OF run_flaky, unfolded if_P [OF k2]]
  from f [THEN conjunct1] f [THEN conjunct2, THEN conjunct2]
  have s2:
    "\<not> isl (fst (get_properties demo_config flaky_engine ''http://x'' 0 ready_world))
     \<and> attempts (calls (snd (get_properties demo_config flaky_engine ''http://x'' 0 ready_world))) = 3
     \<and> retry_sleeps (calls (snd (get_properties demo_config flaky_engine ''http://x'' 0 ready_world)))
         = [Retry_sleep 1000, Retry_sleep 1000]"
    by (simp add: md zero rep)
  note g = b [THEN conjunct2, THEN mp, OF run_failing, unfolded if_not_P [OF k3]]
  from g [THEN conjunct1] g [THEN conjunct2, THEN conjunct2]
  have s3:
    "isl (fst (get_properties demo_config failing_engine ''http://x'' 0 ready_world))
     \<and> attempts (calls (snd (get_properties demo_config failing_engine ''http://x'' 0 ready_world))) = 3
     \<and> retry_sleeps (calls (snd (get_properties demo_config failing_engine ''http://x'' 0 ready_world)))
         = [Retry_sleep 1000, Retry_sleep 1000]"
    by (simp add: n2 md(2) zero rep)
  from page s1 s2 s3 show ?thesis by simp
qed

section \<open>The fetch operations leave the handles alone\<close>

text \<open>
  C10: after \<open>get_properties\<close> and after \<open>get_page_content\<close>, whether the call
  returned or raised and whatever the engine did, the four handle fields hold the values
  they held before the call.
\<close>

theorem handles_untouched_by_fetch:
  "mgr (snd (get_properties cfg eng url rc w)) = mgr w
   \<and> mgr (snd (get_page_content cfg eng url w)) = mgr w"
  by (simp add: get_properties_frame page_content_frame)

section \<open>\<open>get_page_content\<close> is best effort\<close>

lemma page_content_total: "\<not> isl (fst (get_page_content cfg eng url w))"
  by (auto simp: get_page_content_def page_content_body_def prog_defs
      split: sum.splits option.splits prod.splits)

lemma page_content_success:
  "h_page (mgr w) = Some p \<Longrightarrow>
   e_goto eng (calls w @ [Goto p url (Some (navigation_timeout cfg))]) = Inr () \<Longrightarrow>
   e_content eng (calls w @ [Goto p url (Some (navigation_timeout cfg)), Settle_sleep, Content p])
     = Inr c \<Longrightarrow>
   fst (get_page_content cfg eng url w) = Inr (Some c)"
  by (auto simp: get_page_content_def page_content_body_def prog_defs
      split: sum.splits option.splits prod.splits)

lemma page_content_short_warning:
  "h_page (mgr w) = Some p \<Longrightarrow>
   e_goto eng (calls w @ [Goto p url (Some (navigation_timeout cfg))]) = Inr () \<Longrightarrow>
   e_content eng (calls w @ [Goto p url (Some (navigation_timeout cfg)), Settle_sleep, Content p])
     = Inr c \<Longrightarrow> length c < 1000 \<Longrightarrow>
   logs (snd (get_page_content cfg eng url w)) =
     logs w @ [(Debug, ''Fetched content length''),
               (Warning, ''Content seems too short, might be incomplete'')]"
  by (auto simp: get_page_content_def page_content_body_def prog_defs
      split: sum.splits option.splits prod.splits)

lemma page_content_origin:
  "fst (get_page_content cfg eng url w) = Inr (Some c) \<Longrightarrow>
   \<exists>p. h_page (mgr w) = Some p
      \<and> e_goto eng (calls w @ [Goto p url (Some (navigation_timeout cfg))]) = Inr ()
      \<and> e_content eng (calls w @ [Goto p url (Some (navigation_timeout cfg)), Settle_sleep, Content p])
          = Inr c"
  by (auto simp: get_page_content_def page_content_body_def prog_defs
      split: sum.splits option.splits prod.splits if_splits)

lemma page_content_calls:
  "attempts (calls (snd (get_page_content cfg eng url w))) \<le> attempts (calls w) + 1
   \<and> retry_sleeps (calls (snd (get_page_content cfg eng url w))) = retry_sleeps (calls w)"
  by (auto simp: get_page_content_def page_content_body_def prog_defs attempts_def retry_sleeps_def
      split: sum.splits option.splits prod.splits)

text \<open>
  C7: \<open>get_page_content\<close> never raises.  When the page handle is present and the
  navigation and the capture succeed it returns the captured content as it is, whatever its
  length and whether or not it holds the marker; content shorter than 1000 characters only
  adds a warning to the log.  It returns content in no other case (so every failure gives
  \<open>None\<close>), it navigates at most once and it never waits for a retry.
\<close>

theorem get_page_content_best_effort:
  "\<not> isl (fst (get_page_content cfg eng url w))
   \<and> (h_page (mgr w) = Some p
        \<and> e_goto eng (calls w @ [Goto p url (Some (navigation_timeout cfg))]) = Inr ()
        \<and> e_content eng
            (calls w @ [Goto p url (Some (navigation_timeout cfg)), Settle_sleep, Content p]) = Inr c
      \<longrightarrow> fst (get_page_content cfg eng url w) = Inr (Some c)
        \<and> (length c < 1000 \<longrightarrow>
             logs (snd (get_page_content cfg eng url w)) =
               logs w @ [(Debug, ''Fetched content length''),
                         (Warning, ''Content seems too short, might be incomplete'')]))
   \<and> (fst (get_page_content cfg eng url w) = Inr (Some c') \<longrightarrow>
        (\<exists>q. h_page (mgr w) = Some q
           \<and> e_goto eng (calls w @ [Goto q url (Some (navigation_timeout cfg))]) = Inr ()
           \<and> e_content eng
               (calls w @ [Goto q url (Some (navigation_timeout cfg)), Settle_sleep, Content q])
               = Inr c'))
   \<and> attempts (calls (snd (get_page_content cfg eng url w))) \<le> attempts (calls w) + 1
   \<and> retry_sleeps (calls (snd (get_page_content cfg eng url w))) = retry_sleeps (calls w)"
proof (intro conjI impI)
  show "\<not> isl (fst (get_page_content cfg eng url w))"
    by (rule page_content_total)
next
  assume "h_page (mgr w) = Some p
        \<and> e_goto eng (calls w @ [Goto p url (Some (navigation_timeout cfg))]) = Inr ()
        \<and> e_content eng
            (calls w @ [Goto p url (Some (navigation_timeout cfg)), Settle_sleep, Content p]) = Inr c"
  then show "fst (get_page_content cfg eng url w) = Inr (Some c)"
    using page_content_success [of w p eng url cfg c] by simp
next
  assume "h_page (mgr w) = Some p
        \<and> e_goto eng (calls w @ [Goto p url (Some (navigation_timeout cfg))]) = Inr ()
        \<and> e_content eng
            (calls w @ [Goto p url (Some (navigation_timeout cfg)), Settle_sleep, Content p]) = Inr c"
    and "length c < 1000"
  then show "logs (snd (get_page_content cfg eng url w)) =
               logs w @ [(Debug, ''Fetched content length''),
                         (Warning, ''Content seems too short, might be incomplete'')]"
    using page_content_short_warning [of w p eng url cfg c] by simp
next
  assume "fst (get_page_content cfg eng url w) = Inr (Some c')"
  then show "\<exists>q. h_page (mgr w) = Some q
           \<and> e_goto eng (calls w @ [Goto q url (Some (navigation_timeout cfg))]) = Inr ()
           \<and> e_content eng
               (calls w @ [Goto q url (Some (navigation_timeout cfg)), Settle_sleep, Content q])
               = Inr c'"
    by (rule page_content_origin)
next
  show "attempts (calls (snd (get_page_content cfg eng url w))) \<le> attempts (calls w) + 1"
    using page_content_calls [of cfg eng url w] by simp
next
  show "retry_sleeps (calls (snd (get_page_content cfg eng url w))) = retry_sleeps (calls w)"
    using page_content_calls [of cfg eng url w] by simp
qed

theorem get_page_content_best_effort_witness:
  "h_page (mgr ready_world) = Some 4
   \<and> fst (get_page_content demo_config quiet_engine ''http://x'' ready_world)
       = Inr (Some ''<html></html>'')
   \<and> length ''<html></html>'' < 1000
   \<and> logs (snd (get_page_content demo_config quiet_engine ''http://x'' ready_world)) =
       [(Debug, ''Fetched content length''),
        (Warning, ''Content seems too short, might be incomplete'')]
   \<and> \<not> isl (fst (get_page_content demo_config failing_engine ''http://x'' ready_world))"
proof -
  have page: "h_page (mgr ready_world) = Some 4" by (simp add: ready_world_def)
  have goto: "e_goto quiet_engine
      (calls ready_world @ [Goto 4 ''http://x'' (Some (navigation_timeout demo_config))]) = Inr ()"
    by (simp add: quiet_engine_def)
  have content: "e_content quiet_engine
      (calls ready_world @ [Goto 4 ''http://x'' (Some (navigation_timeout demo_config)),
         Settle_sleep, Content 4]) = Inr ''<html></html>''"
    by (simp add: quiet_engine_def)
  have no_logs: "logs ready_world = []" by (simp add: ready_world_def)
  have short: "length ''<html></html>'' < 1000" by simp
  note ok = get_page_content_best_effort
    [of demo_config quiet_engine "''http://x''" ready_world 4 "''<html></html>''" "''<html></html>''"]
  note bad = get_page_content_best_effort
    [of demo_config failing_engine "''http://x''" ready_world 4 "''<html></html>''" "''<html></html>''"]
  from ok page goto content
  have r: "fst (get_page_content demo_config quiet_engine ''http://x'' ready_world)
       = Inr (Some ''<html></html>'')" by blast
  from ok page goto content short
  have l: "logs (snd (get_page_content demo_config quiet_engine ''http://x'' ready_world)) =
       logs ready_world @ [(Debug, ''Fetched content length''),
        (Warning, ''Content seems too short, might be incomplete'')]" by blast
  from bad have b: "\<not> isl (fst (get_page_content demo_config failing_engine ''http://x'' ready_world))"
    by blast
  from page r short l b show ?thesis unfolding no_logs by simp
qed

section \<open>The release sequence of \<open>close\<close>\<close>

lemma released_after_step:
  assumes c: "calls w1 = calls w @ [c]"
    and p: "release_plan (mgr w) = c # release_plan (mgr w1)"
    and r: "released w1 res"
  shows "released w res"
proof -
  define d1 where "d1 = new_calls w1 (snd res)"
  from r have g: "calls (snd res) = calls w1 @ d1" and pre: "prefix d1 (release_plan (mgr w1))"
    by (simp_all add: released_def d1_def)
  have d: "new_calls w (snd res) = c # d1"
    using g c by (simp add: new_calls_def)
  show ?thesis
  proof (cases "fst res")
    case (Inr u)
    with r have "d1 = release_plan (mgr w1)" "mgr (snd res) = BrowserManager_init"
      by (simp_all add: released_def d1_def)
    then show ?thesis using Inr d g c p by (simp add: released_def)
  next
    case (Inl e)
    with r have ne: "d1 \<noteq> []"
      and rest: "release_plan (mgr (snd res)) = drop (length d1 - 1) (release_plan (mgr w1))"
      by (simp_all add: released_def d1_def)
    from ne have "length d1 = Suc (length d1 - 1)" by (cases d1) simp_all
    then have "drop (length d1) (c # release_plan (mgr w1)) = drop (length d1 - 1) (release_plan (mgr w1))"
      by (metis drop_Suc_Cons)
    then show ?thesis using Inl d g c p pre rest by (simp add: released_def)
  qed
qed

lemma released_failed_first:
  assumes c: "calls w1 = calls w @ [c]" and m: "mgr w1 = mgr w"
    and p: "release_plan (mgr w) = c # rest"
  shows "released w (Inl e, w1)"
  using assms by (simp add: released_def new_calls_def)

lemma released_engine:
  assumes "h_page (mgr w) = None" "h_context (mgr w) = None" "h_browser (mgr w) = None"
  shows "released w
     (bnd (release_playwright eng) (\<lambda>_. log Info ''Browser resources cleaned up'') w)"
proof (cases "h_playwright (mgr w)")
  case None
  then show ?thesis using assms
    by (cases "mgr w") (simp add: release_playwright_def prog_defs released_def new_calls_def
        release_plan_def BrowserManager_init_def)
next
  case (Some pw)
  show ?thesis
  proof (cases "e_stop eng (calls w @ [Stop pw])")
    case (Inl e)
    have "released w (Inl e, w\<lparr>calls := calls w @ [Stop pw]\<rparr>)"
      by (rule released_failed_first [where c = "Stop pw" and rest = "[]"])
         (use Some assms in \<open>simp_all add: release_plan_def\<close>)
    then show ?thesis using Some Inl by (simp add: release_playwright_def prog_defs)
  next
    case (Inr u)
    then show ?thesis using Some assms
      by (cases "mgr w") (simp add: release_playwright_def prog_defs released_def new_calls_def
        release_plan_def BrowserManager_init_def)
  qed
qed


lemma released_browser:
  assumes "h_page (mgr w) = None" "h_context (mgr w) = None"
  shows "released w
     (bnd (release_browser eng) (\<lambda>_. bnd (release_playwright eng) (\<lambda>_. log Info ''Browser resources cleaned up'')) w)"
proof (cases "h_browser (mgr w)")
  case None
  have "released w (bnd (release_playwright eng) (\<lambda>_. log Info ''Browser resources cleaned up'') w)"
    by (rule released_engine) (use None assms in simp_all)
  then show ?thesis using None by (simp add: release_browser_def prog_defs)
next
  case (Some b)
  show ?thesis
  proof (cases "e_browser_close eng (calls w @ [Browser_close b])")
    case (Inl e)
    have "released w (Inl e, w\<lparr>calls := calls w @ [Browser_close b]\<rparr>)"
      by (rule released_failed_first [where c = "Browser_close b"])
         (use Some assms in \<open>simp_all add: release_plan_def\<close>)
    then show ?thesis using Some Inl by (simp add: release_browser_def prog_defs)
  next
    case (Inr u)
    define w1 where "w1 = w\<lparr>calls := calls w @ [Browser_close b], mgr := (mgr w)\<lparr>h_browser := None\<rparr>\<rparr>"
    have "released w1 (bnd (release_playwright eng) (\<lambda>_. log Info ''Browser resources cleaned up'') w1)"
      by (rule released_engine) (use assms in \<open>simp_all add: w1_def\<close>)
    then have "released w (bnd (release_playwright eng) (\<lambda>_. log Info ''Browser resources cleaned up'') w1)"
      by (rule released_after_step [where c = "Browser_close b", rotated 2])
         (use Some assms in \<open>simp_all add: w1_def release_plan_def\<close>)
    then show ?thesis using Some Inr by (simp add: release_browser_def prog_defs w1_def)
  qed
qed

lemma released_context:
  assumes "h_page (mgr w) = None"
  shows "released w
     (bnd (release_context eng) (\<lambda>_. bnd (release_browser eng) (\<lambda>_. bnd (release_playwright eng) (\<lambda>_. log Info ''Browser resources cleaned up''))) w)"
proof (cases "h_context (mgr w)")
  case None
  have "released w (bnd (release_browser eng) (\<lambda>_. bnd (release_playwright eng) (\<lambda>_. log Info ''Browser resources cleaned up'')) w)"
    by (rule released_browser) (use None assms in simp_all)
  then show ?thesis using None by (simp add: release_context_def prog_defs)
next
  case (Some c)
  show ?thesis
  proof (cases "e_context_close eng (calls w @ [Context_close c])")
    case (Inl e)
    have "released w (Inl e, w\<lparr>calls := calls w @ [Context_close c]\<rparr>)"
      by (rule released_failed_first [where c = "Context_close c"])
         (use Some assms in \<open>simp_all add: release_plan_def\<close>)
    then show ?thesis using Some Inl by (simp add: release_context_def prog_defs)
  next
    case (Inr u)
    define w1 where "w1 = w\<lparr>calls := calls w @ [Context_close c], mgr := (mgr w)\<lparr>h_context := None\<rparr>\<rparr>"
    have "released w1 (bnd (release_browser eng) (\<lambda>_. bnd (release_playwright eng) (\<lambda>_. log Info ''Browser resources cleaned up'')) w1)"
      by (rule released_browser) (use assms in \<open>simp_all add: w1_def\<close>)
    then have "released w (bnd (release_browser eng) (\<lambda>_. bnd (release_playwright eng) (\<lambda>_. log Info ''Browser resources cleaned up'')) w1)"
      by (rule released_after_step [where c = "Context_close c", rotated 2])
         (use Some assms in \<open>simp_all add: w1_def release_plan_def\<close>)
    then show ?thesis using Some Inr by (simp add: release_context_def prog_defs w1_def)
  qed
qed

lemma released_page:
  shows "released w
     (bnd (release_page eng) (\<lambda>_. bnd (release_context eng) (\<lambda>_. bnd (release_browser eng) (\<lambda>_. bnd (release_playwright eng) (\<lambda>_. log Info ''Browser resources cleaned up'')))) w)"
proof (cases "h_page (mgr w)")
  case None
  have "released w (bnd (release_context eng) (\<lambda>_. bnd (release_browser eng) (\<lambda>_. bnd (release_playwright eng) (\<lambda>_. log Info ''Browser resources cleaned up''))) w)"
    by (rule released_context) (use None in simp_all)
  then show ?thesis using None by (simp add: release_page_def prog_defs)
next
  case (Some p)
  show ?thesis
  proof (cases "e_page_close eng (calls w @ [Page_close p])")
    case (Inl e)
    have "released w (Inl e, w\<lparr>calls := calls w @ [Page_close p]\<rparr>)"
      by (rule released_failed_first [where c = "Page_close p"])
         (use Some in \<open>simp_all add: release_plan_def\<close>)
    then show ?thesis using Some Inl by (simp add: release_page_def prog_defs)
  next
    case (Inr u)
    define w1 where "w1 = w\<lparr>calls := calls w @ [Page_close p], mgr := (mgr w)\<lparr>h_page := None\<rparr>\<rparr>"
    have "released w1 (bnd (release_context eng) (\<lambda>_. bnd (release_browser eng) (\<lambda>_. bnd (release_playwright eng) (\<lambda>_. log Info ''Browser resources cleaned up''))) w1)"
      by (rule released_context) (use in \<open>simp_all add: w1_def\<close>)
    then have "released w (bnd (release_context eng) (\<lambda>_. bnd (release_browser eng) (\<lambda>_. bnd (release_playwright eng) (\<lambda>_. log Info ''Browser resources cleaned up''))) w1)"
      by (rule released_after_step [where c = "Page_close p", rotated 2])
         (use Some in \<open>simp_all add: w1_def release_plan_def\<close>)
    then show ?thesis using Some Inr by (simp add: release_page_def prog_defs w1_def)
  qed
qed

lemma close_body_released: "released w (close_body eng w)"
  using released_page [of w eng] by (simp add: close_body_def)

lemma close_released_parts:
  "calls (snd (close eng w)) = calls (snd (close_body eng w))"
  "mgr (snd (close eng w)) = mgr (snd (close_body eng w))"
  by (cases "close_body eng w"; simp add: close_def try_except_def log_def log_w_def
      split: sum.splits)+

lemma close_clean:
  assumes "fst (close_body eng w) = Inr ()"
  shows "new_calls w (snd (close eng w)) = release_plan (mgr w)"
    "mgr (snd (close eng w)) = BrowserManager_init"
  using close_body_released [of w eng] assms
  by (simp_all add: released_def close_released_parts new_calls_def)



section \<open>The launch sequence of \<open>connect\<close>\<close>

lemma connect_failure:
  "fst (connect_body cfg eng w) = Inl e \<Longrightarrow>
   connect cfg eng w = (Inl e, snd (close eng (launch_failed_world cfg eng w)))"
  using close_result [of eng "launch_failed_world cfg eng w"]
  by (cases "connect_body cfg eng w"; cases "close eng (launch_failed_world cfg eng w)")
     (simp add: connect_def launch_failed_world_def try_except_def bnd_def log_def raise_def)

lemma connect_success:
  "fst (connect_body cfg eng w) = Inr u \<Longrightarrow> connect cfg eng w = connect_body cfg eng w"
  by (cases "connect_body cfg eng w") (simp add: connect_def try_except_def)

lemma connect_result: "fst (connect cfg eng w) = fst (connect_body cfg eng w)"
proof (cases "fst (connect_body cfg eng w)")
  case (Inl e)
  then show ?thesis using connect_failure [of cfg eng w e] by simp
next
  case (Inr u)
  then show ?thesis using connect_success [of cfg eng w u] by simp
qed

lemma bnd_returnsE:
  assumes "bnd m f w = (Inr u, w')"
  obtains x w1 where "m w = (Inr x, w1)" "f x w1 = (Inr u, w')"
  using assms by (auto simp: bnd_def split: prod.splits sum.splits)

lemma invoke_returnsD:
  "invoke c oracle w = (Inr x, w1) \<Longrightarrow> mgr w1 = mgr w"
  by (auto simp: invoke_def)

lemma log_returnsD: "log lv msg w = (Inr x, w1) \<Longrightarrow> mgr w1 = mgr w"
  by (auto simp: log_def log_w_def)

lemma setter_returnsD:
  "set_playwright v w = (Inr x, w1) \<Longrightarrow> mgr w1 = (mgr w)\<lparr>h_playwright := v\<rparr>"
  "set_browser v w = (Inr x, w1) \<Longrightarrow> mgr w1 = (mgr w)\<lparr>h_browser := v\<rparr>"
  "set_context v w = (Inr x, w1) \<Longrightarrow> mgr w1 = (mgr w)\<lparr>h_context := v\<rparr>"
  "set_page v w = (Inr x, w1) \<Longrightarrow> mgr w1 = (mgr w)\<lparr>h_page := v\<rparr>"
  by (auto simp: set_playwright_def set_browser_def set_context_def set_page_def)

lemma launch_steps_ready:
  assumes "(bnd (log Info ''Launching browser...'') (\<lambda>_.
           bnd (invoke (Launch pw (headless cfg)) (e_launch eng)) (\<lambda>b.
           bnd (set_browser (Some b)) (\<lambda>_.
           bnd (invoke (New_context b (user_agent cfg) (viewport_width cfg) (viewport_height cfg))
                  (e_new_context eng)) (\<lambda>c.
           bnd (set_context (Some c)) (\<lambda>_.
           bnd (invoke (New_page c) (e_new_page eng)) (\<lambda>p.
           bnd (set_page (Some p)) (\<lambda>_.
           bnd (invoke (Set_default_timeout p (default_timeout cfg))
                  (e_set_default_timeout eng)) (\<lambda>_.
           bnd (invoke (Set_default_navigation_timeout p (navigation_timeout cfg))
                  (e_set_default_navigation_timeout eng)) (\<lambda>_.
           log Info ''Browser launched successfully'')))))))))) w = (Inr u, w')"
    and "h_playwright (mgr w) \<noteq> None"
  shows "all_present (mgr w')"
  using assms
  by (elim bnd_returnsE)
     (auto dest!: invoke_returnsD log_returnsD setter_returnsD simp: all_present_def)

lemma initialize_playwright_returns:
  "initialize_playwright eng w = (Inr u, w1) \<Longrightarrow> h_playwright (mgr w1) \<noteq> None"
  by (cases "h_playwright (mgr w)")
     (auto simp: initialize_playwright_def elim!: bnd_returnsE
       dest!: invoke_returnsD log_returnsD setter_returnsD)

lemma connect_body_ready:
  assumes "connect_body cfg eng w = (Inr u, w')"
  shows "all_present (mgr w')"
proof -
  from assms obtain x w1 where i: "initialize_playwright eng w = (Inr x, w1)"
    and rest: "(case h_playwright (mgr w1) of
         None \<Rightarrow> raise (RuntimeError ''Failed to initialize Playwright'') w1
       | Some pw \<Rightarrow>
          (bnd (log Info ''Launching browser...'') (\<lambda>_.
           bnd (invoke (Launch pw (headless cfg)) (e_launch eng)) (\<lambda>b.
           bnd (set_browser (Some b)) (\<lambda>_.
           bnd (invoke (New_context b (user_agent cfg) (viewport_width cfg) (viewport_height cfg))
                  (e_new_context eng)) (\<lambda>c.
           bnd (set_context (Some c)) (\<lambda>_.
           bnd (invoke (New_page c) (e_new_page eng)) (\<lambda>p.
           bnd (set_page (Some p)) (\<lambda>_.
           bnd (invoke (Set_default_timeout p (default_timeout cfg))
                  (e_set_default_timeout eng)) (\<lambda>_.
           bnd (invoke (Set_default_navigation_timeout p (navigation_timeout cfg))
                  (e_set_default_navigation_timeout eng)) (\<lambda>_.
           log Info ''Browser launched successfully'')))))))))) w1) = (Inr u, w')"
    unfolding connect_body_def by (elim bnd_returnsE)
  from initialize_playwright_returns [OF i] obtain pw where pw: "h_playwright (mgr w1) = Some pw"
    by auto
  from rest pw show ?thesis using launch_steps_ready [of pw cfg eng w1 u w'] by simp
qed

lemma bnd_no_raise:
  assumes "\<not> isl (fst (m w))"
    and "\<And>x w1. m w = (Inr x, w1) \<Longrightarrow> \<not> isl (fst (f x w1))"
  shows "\<not> isl (fst (bnd m f w))"
  using assms by (cases "m w") (auto simp: bnd_def split: sum.splits)

lemma invoke_no_raise: "\<not> isl (oracle (calls w @ [c])) \<Longrightarrow> \<not> isl (fst (invoke c oracle w))"
  by (simp add: invoke_def)

lemma plain_steps_no_raise:
  "\<not> isl (fst (log lv msg w))" "\<not> isl (fst (set_playwright v w))"
  "\<not> isl (fst (set_browser v w))" "\<not> isl (fst (set_context v w))"
  "\<not> isl (fst (set_page v w))"
  by (simp_all add: prog_defs)

lemma initialize_playwright_no_raise:
  assumes "launches_ok eng"
  shows "\<not> isl (fst (initialize_playwright eng w))"
proof (cases "h_playwright (mgr w)")
  case None
  have "\<not> isl (fst ((bnd (log Debug ''Initializing Playwright'') (\<lambda>_.
         bnd (invoke Start (e_start eng)) (\<lambda>pw.
         set_playwright (Some pw)))) w))"
    by (intro bnd_no_raise invoke_no_raise plain_steps_no_raise)
       (use assms in \<open>simp add: launches_ok_def\<close>)
  then show ?thesis using None by (simp add: initialize_playwright_def)
next
  case (Some pw)
  then show ?thesis by (simp add: initialize_playwright_def)
qed

lemma launch_steps_no_raise:
  assumes "launches_ok eng"
  shows "\<not> isl (fst ((bnd (log Info ''Launching browser...'') (\<lambda>_.
           bnd (invoke (Launch pw (headless cfg)) (e_launch eng)) (\<lambda>b.
           bnd (set_browser (Some b)) (\<lambda>_.
           bnd (invoke (New_context b (user_agent cfg) (viewport_width cfg) (viewport_height cfg))
                  (e_new_context eng)) (\<lambda>c.
           bnd (set_context (Some c)) (\<lambda>_.
           bnd (invoke (New_page c) (e_new_page eng)) (\<lambda>p.
           bnd (set_page (Some p)) (\<lambda>_.
           bnd (invoke (Set_default_timeout p (default_timeout cfg))
                  (e_set_default_timeout eng)) (\<lambda>_.
           bnd (invoke (Set_default_navigation_timeout p (navigation_timeout cfg))
                  (e_set_default_navigation_timeout eng)) (\<lambda>_.
           log Info ''Browser launched successfully'')))))))))) w))"
  by (intro bnd_no_raise invoke_no_raise plain_steps_no_raise)
     (use assms in \<open>simp_all add: launches_ok_def\<close>)

lemma connect_body_no_raise:
  assumes "launches_ok eng"
  shows "\<not> isl (fst (connect_body cfg eng w))"
  unfolding connect_body_def
proof (rule bnd_no_raise)
  show "\<not> isl (fst (initialize_playwright eng w))"
    by (rule initialize_playwright_no_raise [OF assms])
next
  fix x w1
  assume "initialize_playwright eng w = (Inr x, w1)"
  from initialize_playwright_returns [OF this] obtain pw where "h_playwright (mgr w1) = Some pw"
    by auto
  then show "\<not> isl (fst (case h_playwright (mgr w1) of
         None \<Rightarrow> raise (RuntimeError ''Failed to initialize Playwright'') w1
       | Some pw \<Rightarrow>
          (bnd (log Info ''Launching browser...'') (\<lambda>_.
           bnd (invoke (Launch pw (headless cfg)) (e_launch eng)) (\<lambda>b.
           bnd (set_browser (Some b)) (\<lambda>_.
           bnd (invoke (New_context b (user_agent cfg) (viewport_width cfg) (viewport_height cfg))
                  (e_new_context eng)) (\<lambda>c.
           bnd (set_context (Some c)) (\<lambda>_.
           bnd (invoke (New_page c) (e_new_page eng)) (\<lambda>p.
           bnd (set_page (Some p)) (\<lambda>_.
           bnd (invoke (Set_default_timeout p (default_timeout cfg))
                  (e_set_default_timeout eng)) (\<lambda>_.
           bnd (invoke (Set_default_navigation_timeout p (navigation_timeout cfg))
                  (e_set_default_navigation_timeout eng)) (\<lambda>_.
           log Info ''Browser launched successfully'')))))))))) w1))"
    using launch_steps_no_raise [OF assms, of pw cfg w1] by simp
qed

lemma connect_ready:
  assumes "fst (connect cfg eng w) = Inr u"
  shows "all_present (mgr (snd (connect cfg eng w)))"
proof -
  from assms have b: "fst (connect_body cfg eng w) = Inr u" by (simp add: connect_result)
  then have "connect_body cfg eng w = (Inr u, snd (connect_body cfg eng w))"
    by (cases "connect_body cfg eng w") simp
  from connect_body_ready [OF this] show ?thesis
    using connect_success [OF b] by simp
qed

lemma connect_launches:
  assumes "launches_ok eng"
  shows "fst (connect cfg eng w) = Inr ()" "all_present (mgr (snd (connect cfg eng w)))"
proof -
  from connect_body_no_raise [OF assms, of cfg w]
  show r: "fst (connect cfg eng w) = Inr ()"
    by (cases "fst (connect_body cfg eng w)") (simp_all add: connect_result)
  from connect_ready [OF r] show "all_present (mgr (snd (connect cfg eng w)))" .
qed

section \<open>The test doubles evaluated\<close>

lemmas close_defs = close_def close_body_def release_defs prog_defs


lemma quiet_close_body: "fst (close_body quiet_engine ready_world) = Inr ()"
  by (simp add: close_defs quiet_engine_def ready_world_def)


lemma stuck_context_close:
  "calls (snd (close stuck_context_engine ready_world)) = [Page_close 4, Context_close 3]"
  "mgr (snd (close stuck_context_engine ready_world)) =
     \<lparr>h_playwright = Some 1, h_browser = Some 2, h_page = None, h_context = Some 3\<rparr>"
  by (simp_all add: close_defs stuck_context_engine_def quiet_engine_def ready_world_def)

lemma no_page_connect_body:
  "fst (connect_body demo_config no_page_engine new_world) = Inl (PlaywrightError ''no page'')"
  by (simp add: connect_body_def initialize_playwright_def prog_defs no_page_engine_def
      quiet_engine_def new_world_def BrowserManager_init_def)

lemma quiet_launches: "launches_ok quiet_engine"
  by (simp add: launches_ok_def quiet_engine_def)

lemmas connect_defs = connect_def connect_body_def initialize_playwright_def

lemma quiet_close_body_new: "fst (close_body quiet_engine new_world) = Inr ()"
  by (simp add: close_defs quiet_engine_def new_world_def BrowserManager_init_def)

lemma no_page_teardown:
  "fst (close_body no_page_engine (launch_failed_world demo_config no_page_engine new_world)) = Inr ()"
  by (simp add: launch_failed_world_def connect_defs close_defs no_page_engine_def
      quiet_engine_def new_world_def BrowserManager_init_def)

lemma no_page_connect:
  "fst (connect demo_config no_page_engine new_world) = Inl (PlaywrightError ''no page'')"
  by (simp add: connect_result no_page_connect_body)

lemma closed_world_calls:
  "calls closed_world =
     [Start, Launch 1 True, New_context 2 ''agent'' 1280 720, New_page 3,
      Set_default_timeout 4 30000, Set_default_navigation_timeout 4 60000,
      Page_close 4, Context_close 3, Browser_close 2, Stop 1]"
  "mgr closed_world = BrowserManager_init"
  by (simp_all add: closed_world_def connect_defs close_defs quiet_engine_def new_world_def
      demo_config_def BrowserManager_init_def)

section \<open>What \<open>close\<close> releases\<close>




section \<open>All handles or none\<close>

text \<open>
  C8 (as stated, refuted): with an engine that closes the page but refuses to close the
  context, \<open>close()\<close> on a connected session returns with the page handle cleared and
  the other three handles still present.
\<close>

theorem partial_handles_after_failed_release:
  "\<not> all_or_nothing (mgr (snd (close stuck_context_engine ready_world)))"
  by (simp add: stuck_context_close all_or_nothing_def all_absent_def all_present_def)

text \<open>
  C8 (amended): when \<open>connect()\<close> returns normally all four handles are present; when
  \<open>close()\<close> meets no failing release step all four are absent, also when it runs as
  the teardown of a failed \<open>connect()\<close>; and the two fetch operations keep an
  all-or-nothing handle state all-or-nothing.
\<close>

theorem handles_all_or_nothing:
  "(fst (connect cfg eng w) = Inr () \<longrightarrow> all_present (mgr (snd (connect cfg eng w))))
   \<and> (fst (close_body eng w) = Inr () \<longrightarrow> all_absent (mgr (snd (close eng w))))
   \<and> (fst (connect cfg eng w) = Inl e
        \<and> fst (close_body eng (launch_failed_world cfg eng w)) = Inr ()
      \<longrightarrow> all_absent (mgr (snd (connect cfg eng w))))
   \<and> (all_or_nothing (mgr w) \<longrightarrow>
        all_or_nothing (mgr (snd (get_properties cfg eng url rc w)))
        \<and> all_or_nothing (mgr (snd (get_page_content cfg eng url w))))"
proof (intro conjI impI)
  assume "fst (connect cfg eng w) = Inr ()"
  then show "all_present (mgr (snd (connect cfg eng w)))" by (rule connect_ready)
next
  assume "fst (close_body eng w) = Inr ()"
  from close_clean(2) [OF this] show "all_absent (mgr (snd (close eng w)))"
    by (simp add: all_absent_def BrowserManager_init_def)
next
  assume a: "fst (connect cfg eng w) = Inl e
        \<and> fst (close_body eng (launch_failed_world cfg eng w)) = Inr ()"
  then have "fst (connect_body cfg eng w) = Inl e" by (simp add: connect_result)
  from connect_failure [OF this] close_clean(2) [where eng = eng and w = "launch_failed_world cfg eng w"] a
  show "all_absent (mgr (snd (connect cfg eng w)))"
    by (simp add: all_absent_def BrowserManager_init_def)
next
  assume "all_or_nothing (mgr w)"
  then show "all_or_nothing (mgr (snd (get_properties cfg eng url rc w)))"
    by (simp add: get_properties_frame)
next
  assume "all_or_nothing (mgr w)"
  then show "all_or_nothing (mgr (snd (get_page_content cfg eng url w)))"
    by (simp add: page_content_frame)
qed

theorem handles_all_or_nothing_witness:
  "fst (connect demo_config quiet_engine new_world) = Inr ()
   \<and> all_present (mgr (snd (connect demo_config quiet_engine new_world)))
   \<and> fst (close_body quiet_engine new_world) = Inr ()
   \<and> all_absent (mgr (snd (close quiet_engine new_world)))
   \<and> fst (connect demo_config no_page_engine new_world) = Inl (PlaywrightError ''no page'')
   \<and> fst (close_body no_page_engine (launch_failed_world demo_config no_page_engine new_world))
        = Inr ()
   \<and> all_absent (mgr (snd (connect demo_config no_page_engine new_world)))
   \<and> all_or_nothing (mgr new_world)
   \<and> all_or_nothing (mgr (snd (get_properties demo_config quiet_engine ''http://x'' 0 new_world)))
   \<and> all_or_nothing (mgr (snd (get_page_content demo_config quiet_engine ''http://x'' new_world)))"
proof -
  have c: "fst (connect demo_config quiet_engine new_world) = Inr ()"
    by (rule connect_launches(1) [OF quiet_launches])
  have n: "all_or_nothing (mgr new_world)"
    by (simp add: all_or_nothing_def all_absent_def new_world_def BrowserManager_init_def)
  from handles_all_or_nothing [of demo_config quiet_engine new_world
      "PlaywrightError ''no page''" "''http://x''" 0]
    handles_all_or_nothing [of demo_config no_page_engine new_world
      "PlaywrightError ''no page''" "''http://x''" 0]
    c n quiet_close_body_new no_page_teardown no_page_connect
  show ?thesis by simp
qed

section \<open>Connecting again after \<open>close\<close>\<close>

text \<open>
  C9 (as stated, refuted): a session that was connected and then closed (its history ends
  with the four release calls, its handles are all absent) is connected again by a further
  \<open>connect()\<close> on the same manager: the call returns normally and all four handles are
  present.  The manager keeps no record of having been closed.
\<close>

theorem closed_session_becomes_ready_again:
  "calls closed_world =
     [Start, Launch 1 True, New_context 2 ''agent'' 1280 720, New_page 3,
      Set_default_timeout 4 30000, Set_default_navigation_timeout 4 60000,
      Page_close 4, Context_close 3, Browser_close 2, Stop 1]
   \<and> all_absent (mgr closed_world)
   \<and> fst (connect demo_config quiet_engine closed_world) = Inr ()
   \<and> all_present (mgr (snd (connect demo_config quiet_engine closed_world)))"
  using connect_launches [OF quiet_launches, of demo_config closed_world]
  by (simp add: closed_world_calls all_absent_def BrowserManager_init_def)

text \<open>
  C9 (amended): a \<open>close()\<close> that meets no failing release step leaves the manager
  in exactly the state of a newly constructed one, and \<open>connect()\<close> on that session,
  with any engine whose launch steps succeed, returns normally with all four handles
  present.
\<close>

theorem closed_session_can_reconnect:
  assumes "fst (close_body eng w) = Inr ()" and "launches_ok eng'"
  shows "mgr (snd (close eng w)) = BrowserManager_init
       \<and> fst (connect cfg eng' (snd (close eng w))) = Inr ()
       \<and> all_present (mgr (snd (connect cfg eng' (snd (close eng w)))))"
  using close_clean(2) [OF assms(1)] connect_launches [OF assms(2), of cfg "snd (close eng w)"]
  by simp

theorem closed_session_can_reconnect_witness:
  "fst (close_body quiet_engine ready_world) = Inr ()
   \<and> mgr (snd (close quiet_engine ready_world)) = BrowserManager_init
   \<and> fst (connect demo_config quiet_engine (snd (close quiet_engine ready_world))) = Inr ()
   \<and> all_present (mgr (snd (connect demo_config quiet_engine (snd (close quiet_engine ready_world)))))"
  using closed_session_can_reconnect [OF quiet_close_body quiet_launches, of demo_config]
    quiet_close_body
  by simp

section \<open>The fragments returned by \<open>get_properties\<close>\<close>












lemma ready_page: "h_page (mgr ready_world) \<noteq> None"
  by (simp add: ready_world_def)






section \<open>The wait for the list container\<close>

lemma no_list_attempt:
  "h_page (mgr w) \<noteq> None \<Longrightarrow>
   fst (fetch_attempt cfg no_list_engine url w) = Inl (PlaywrightTimeoutError ''Timeout exceeded'')"
  by (auto simp: fetch_attempt_def prog_defs no_list_engine_def quiet_engine_def)

text \<open>
  C2 (the code at the failing input): the claim is that \<open>get_properties\<close> returns an
  empty sequence, without failing or retrying, when the list container never appears within
  the timeout.  With an engine whose wait for the list container times out, that is,
  raises, the code on a connected session does not do so: the branch of lines 129 to 131,
  which logs that the selector was not found and returns the empty sequence, tests the
  value the wait returns and is not reached; the failure is retried, and after three
  attempts (retry limit 2) the timeout error is raised to the caller.
\<close>

theorem wait_timeout_is_retried_and_raised:
  "fst (get_properties demo_config no_list_engine ''http://x'' 0 ready_world) =
     Inl (PlaywrightTimeoutError ''Timeout exceeded'')
   \<and> attempts (calls (snd (get_properties demo_config no_list_engine ''http://x'' 0 ready_world))) = 3"
proof -
  have pw: "\<And>i. h_page (mgr (attempt_world demo_config no_list_engine ''http://x'' i ready_world))
      \<noteq> None"
    using ready_page by (simp add: attempt_world_mgr)
  have zero: "attempts (calls ready_world) = 0" by (simp add: ready_world_def attempts_def)
  have F: "\<forall>i\<le>2. isl (fst (fetch_attempt demo_config no_list_engine ''http://x''
             (attempt_world demo_config no_list_engine ''http://x'' i ready_world)))"
    by (simp add: no_list_attempt [OF pw])
  have N: "\<forall>i<2. e_nested_await no_list_engine
             (calls (attempt_world demo_config no_list_engine ''http://x'' (Suc i) ready_world))"
    by (simp add: no_list_engine_def quiet_engine_def)
  have d: "max_retries demo_config - 0 = int 2" by (simp add: demo_config_def)
  define w2 where "w2 = attempt_world demo_config no_list_engine ''http://x'' 2 ready_world"
  have p2: "h_page (mgr w2) \<noteq> None" using pw by (simp add: w2_def)
  have c2: "attempts (calls w2) = 2"
    using attempt_world_calls [OF ready_page, of demo_config no_list_engine "''http://x''" 2] zero
    by (simp add: w2_def)
  obtain r w3 where fa: "fetch_attempt demo_config no_list_engine ''http://x'' w2 = (r, w3)"
    by (cases "fetch_attempt demo_config no_list_engine ''http://x'' w2")
  with no_list_attempt [OF p2, of demo_config "''http://x''"]
  have r: "r = Inl (PlaywrightTimeoutError ''Timeout exceeded'')" by simp
  note aw = attempt_facts [OF fa p2]
  from run_gives_up [OF demo_delay_fits ready_page F N d]
  show ?thesis using fa r aw c2 by (simp add: w2_def [symmetric] log_w_facts)
qed

end
